theory Spec2Isabelle
  imports Complex_Main "HOL-Library.Sublist"
begin

section \<open>JavaScript values used by the treasure routes\<close>

text \<open>
  A JavaScript number is modelled as a real number, and a number that may be \<open>NaN\<close>,
  \<open>undefined\<close> (which every arithmetic operation turns into \<open>NaN\<close>) or infinite
  (which the trigonometric functions turn into \<open>NaN\<close>) as \<open>real option\<close>, with
  \<open>None\<close> for those values. Rounding errors of IEEE doubles are not modelled.
  Counters that the schemas declare as \<open>Number\<close> with \<open>min: 0\<close> are natural numbers,
  timestamps are integers (milliseconds since the epoch).
\<close>

type_synonym jsnum = "real option"

text \<open>\<open>x > y\<close> on numbers: every comparison with \<open>NaN\<close> is false.\<close>

definition js_gt :: "jsnum \<Rightarrow> real \<Rightarrow> bool" where
  "js_gt x y = (case x of None \<Rightarrow> False | Some v \<Rightarrow> v > y)"

text \<open>\<open>Math.round\<close>: the nearest integer, halves upwards; \<open>NaN\<close> stays \<open>NaN\<close>.\<close>

definition math_round :: "jsnum \<Rightarrow> int option" where
  "math_round x = (case x of None \<Rightarrow> None | Some v \<Rightarrow> Some \<lfloor>v + 1 / 2\<rfloor>)"

text \<open>\<open>Math.atan2(y, x)\<close> on finite arguments.\<close>

definition atan2 :: "real \<Rightarrow> real \<Rightarrow> real" where
  "atan2 y x =
     (if x > 0 then arctan (y / x)
      else if x < 0 then (if y \<ge> 0 then arctan (y / x) + pi else arctan (y / x) - pi)
      else if y > 0 then pi / 2
      else if y < 0 then - (pi / 2)
      else 0)"

text \<open>\<open>s.includes(sub)\<close>: \<open>sub\<close> occurs in \<open>s\<close> as a contiguous substring.\<close>

fun str_includes :: "string \<Rightarrow> string \<Rightarrow> bool" where
  "str_includes [] sub = (sub = [])"
| "str_includes (c # cs) sub = (prefix sub (c # cs) \<or> str_includes cs sub)"

text \<open>\<open>s.split(',')\<close>.\<close>

fun split_comma :: "string \<Rightarrow> string list" where
  "split_comma [] = [[]]"
| "split_comma (c # cs) =
     (if c = CHR '','' then [] # split_comma cs
      else (case split_comma cs of [] \<Rightarrow> [[c]] | p # ps \<Rightarrow> (c # p) # ps))"

text \<open>The decimal digits of a non-negative integer, as a template literal prints it.\<close>

definition digit_char :: "nat \<Rightarrow> char" where
  "digit_char d = ''0123456789'' ! d"

fun digits :: "nat \<Rightarrow> string" where
  "digits n = (if n < 10 then [digit_char n] else digits (n div 10) @ [digit_char (n mod 10)])"

declare digits.simps [simp del]

text \<open>Truthiness of an optional string property: present and not empty.\<close>

definition truthy :: "string option \<Rightarrow> bool" where
  "truthy s = (case s of None \<Rightarrow> False | Some v \<Rightarrow> v \<noteq> [])"

section \<open>Distance verifier\<close>

text \<open>\<open>calculateDistance\<close> of \<open>routes/treasures.js\<close> (the same text in both variants).\<close>

definition calculateDistance :: "real \<Rightarrow> real \<Rightarrow> real \<Rightarrow> real \<Rightarrow> real" where
  "calculateDistance lat1 lng1 lat2 lng2 =
     (let R = 6371000;
          phi1 = lat1 * pi / 180;
          phi2 = lat2 * pi / 180;
          dphi = (lat2 - lat1) * pi / 180;
          dlam = (lng2 - lng1) * pi / 180;
          a = sin (dphi / 2) * sin (dphi / 2) +
              cos phi1 * cos phi2 * sin (dlam / 2) * sin (dlam / 2);
          c = 2 * atan2 (sqrt a) (sqrt (1 - a))
      in R * c)"

text \<open>
  The call in the handlers: the claimed location is a validated number, the treasure's
  \<open>latitude\<close> and \<open>longitude\<close> properties may be missing or \<open>NaN\<close>.
\<close>

definition distance_to :: "real \<Rightarrow> real \<Rightarrow> jsnum \<Rightarrow> jsnum \<Rightarrow> jsnum" where
  "distance_to lat lng tlat tlng =
     (case tlat of None \<Rightarrow> None
      | Some a \<Rightarrow> (case tlng of None \<Rightarrow> None | Some b \<Rightarrow> Some (calculateDistance lat lng a b)))"

text \<open>The tolerance check \<open>if (distance > 100)\<close> of both discover handlers.\<close>

definition too_far :: "jsnum \<Rightarrow> bool" where
  "too_far distance = js_gt distance 100"

section \<open>Ranks and the hunter profile\<close>

datatype rank = Beginner | Explorer | Hunter | Master

fun getRankNumber :: "rank \<Rightarrow> nat" where
  "getRankNumber Beginner = 1"
| "getRankNumber Explorer = 2"
| "getRankNumber Hunter = 3"
| "getRankNumber Master = 4"

text \<open>\<open>getTreasuresNeededForRank\<close>: \<open>rankRequirements[rank] || 0\<close>.\<close>

definition getTreasuresNeededForRank :: "nat \<Rightarrow> nat" where
  "getTreasuresNeededForRank r =
     (if r = 1 then 0 else if r = 2 then 5 else if r = 3 then 20 else if r = 4 then 50 else 0)"

record hunter_profile =
  rank :: rank
  totalTreasuresFound :: nat
  totalScore :: nat
  currentStreak :: nat
  longestStreak :: nat
  lastHuntTimestamp :: "int option"

definition updateHunterRank :: "hunter_profile \<Rightarrow> hunter_profile" where
  "updateHunterRank profile =
     (let treasuresFound = totalTreasuresFound profile in
      if treasuresFound \<ge> 50 then profile\<lparr>rank := Master\<rparr>
      else if treasuresFound \<ge> 20 then profile\<lparr>rank := Hunter\<rparr>
      else if treasuresFound \<ge> 5 then profile\<lparr>rank := Explorer\<rparr>
      else profile\<lparr>rank := Beginner\<rparr>)"

text \<open>\<open>date?.getTime() || 0\<close>: a missing date and the epoch itself both give 0.\<close>

definition getTime_or_0 :: "int option \<Rightarrow> int" where
  "getTime_or_0 d = (case d of None \<Rightarrow> 0 | Some t \<Rightarrow> (if t = 0 then 0 else t))"

text \<open>
  Step 8 of both discover handlers, in the order of the statements. \<open>t_hunt\<close> is the
  clock at \<open>hunterProfile.lastHuntTimestamp = new Date()\<close> and \<open>t_diff\<close> the clock at
  the later \<open>Date.now()\<close> of the streak computation.
\<close>

definition update_profile :: "int \<Rightarrow> int \<Rightarrow> nat \<Rightarrow> hunter_profile \<Rightarrow> hunter_profile" where
  "update_profile t_hunt t_diff reward hunterProfile =
     (let p1 = hunterProfile\<lparr>totalTreasuresFound := totalTreasuresFound hunterProfile + 1\<rparr>;
          p2 = p1\<lparr>totalScore := totalScore p1 + reward\<rparr>;
          p3 = p2\<lparr>lastHuntTimestamp := Some t_hunt\<rparr>;
          timeDiff = t_diff - getTime_or_0 (lastHuntTimestamp p3);
          p4 = (if timeDiff \<le> 86400000 then p3\<lparr>currentStreak := currentStreak p3 + 1\<rparr>
                else p3\<lparr>currentStreak := 1\<rparr>);
          p5 = (if currentStreak p4 > longestStreak p4
                then p4\<lparr>longestStreak := currentStreak p4\<rparr> else p4)
      in updateHunterRank p5)"

section \<open>Stored documents\<close>

text \<open>
  A treasure as the handlers read it. \<open>coordinates\<close> is \<open>location.coordinates\<close>
  (\<open>[longitude, latitude]\<close>, what the \<open>$near\<close> query searches); \<open>latitude\<close> and
  \<open>longitude\<close> are the properties of these names that the handlers pass to
  \<open>calculateDistance\<close>. The schema declares no such paths, so for a stored document
  they are whatever the property read yields (\<open>None\<close> for \<open>undefined\<close>); the
  theorems hold for every value. Name, description, image and metadata are left out.
\<close>

record treasure =
  treasureId :: string
  coordinates :: "(real \<times> real) option"
  latitude :: jsnum
  longitude :: jsnum
  rarity :: nat
  rewardPoints :: nat
  requiredRank :: nat
  isActive :: bool

text \<open>
  A \<open>TreasureDiscovery\<close> document. \<open>blockchainSuccess\<close> and
  \<open>autoGeneratedTreasure\<close> are written by the second variant only. The generated
  \<open>_id\<close>, the NFC and QR payloads, block height and gas are left out.
\<close>

record discovery =
  d_userId :: string
  d_treasureId :: string
  nftObjectId :: string
  transactionDigest :: string
  proof_latitude :: real
  proof_longitude :: real
  proof_distance :: "int option"
  blockchainSuccess :: "bool option"
  offline :: bool
  autoGeneratedTreasure :: "bool option"
  discoveredAt :: int

record user =
  profileObjectId :: "string option"
  encryptedPrivateKey :: "string option"

record store =
  treasures :: "treasure list"
  discoveries :: "discovery list"
  profiles :: "string \<rightharpoonup> hunter_profile"
  users :: "string \<rightharpoonup> user"

subsection \<open>The discovery ledger: validators and unique indexes\<close>

definition is_hex :: "char \<Rightarrow> bool" where
  "is_hex c = (c \<in> set ''0123456789abcdefABCDEF'')"

definition is_base58 :: "char \<Rightarrow> bool" where
  "is_base58 c = (c \<in> set ''123456789ABCDEFGHJKLMNPQRSTUVWXYZabcdefghijkmnopqrstuvwxyz'')"

text \<open>\<open>/^[a-fA-F0-9]{64}$/\<close> and \<open>/^0x[a-fA-F0-9]{64}$/\<close>.\<close>

definition hex64 :: "string \<Rightarrow> bool" where
  "hex64 v = (length v = 64 \<and> list_all is_hex v)"

definition hex0x64 :: "string \<Rightarrow> bool" where
  "hex0x64 v = (take 2 v = ''0x'' \<and> hex64 (drop 2 v))"

text \<open>\<open>/^[1-9A-HJ-NP-Za-km-z]{43,44}$/\<close>.\<close>

definition base58_digest :: "string \<Rightarrow> bool" where
  "base58_digest v = ((length v = 43 \<or> length v = 44) \<and> list_all is_base58 v)"

definition nft_valid :: "string \<Rightarrow> bool" where
  "nft_valid v = (hex0x64 v \<or> prefix ''offline_'' v)"

definition digest_valid :: "string \<Rightarrow> bool" where
  "digest_valid v = (base58_digest v \<or> hex64 v \<or> hex0x64 v \<or> prefix ''offline_'' v)"

datatype save_error = ValidationError | DuplicateKey

text \<open>
  \<open>treasureDiscovery.save()\<close>: the schema's validators run first, then the insert,
  which the unique indexes on \<open>treasureId\<close>, \<open>nftObjectId\<close> and
  \<open>transactionDigest\<close> reject for a key that is already stored.
\<close>

definition discovery_valid :: "discovery \<Rightarrow> bool" where
  "discovery_valid d =
     (d_userId d \<noteq> [] \<and> d_treasureId d \<noteq> [] \<and>
      nft_valid (nftObjectId d) \<and> digest_valid (transactionDigest d))"

definition key_clash :: "discovery \<Rightarrow> discovery \<Rightarrow> bool" where
  "key_clash d e =
     (d_treasureId e = d_treasureId d \<or> nftObjectId e = nftObjectId d \<or>
      transactionDigest e = transactionDigest d)"

definition save_discovery :: "discovery \<Rightarrow> discovery list \<Rightarrow> save_error + discovery list" where
  "save_discovery d ledger =
     (if \<not> discovery_valid d then Inl ValidationError
      else if list_ex (key_clash d) ledger then Inl DuplicateKey
      else Inr (ledger @ [d]))"

section \<open>Chain gateway: \<open>SuiService.discoverTreasure\<close>\<close>

text \<open>
  What the Sui client returns is an input of the model: whether the keypair loads, the
  balance in MIST that \<open>getBalance\<close> reports, whether the registry id is configured,
  and the outcome of \<open>signAndExecuteTransaction\<close>.
\<close>

datatype exec_result =
    ExecThrows string
  | ExecFailed "string option"
  | ExecNoChanges
  | ExecNoNft
  | ExecMinted string string

record chain_env =
  keypair_error :: "string option"
  balance :: nat
  registry_configured :: bool
  exec :: exec_result

record minted =
  minted_nft :: string
  minted_digest :: string

text \<open>
  The result is the thrown error's message or the minted references.
  \<open>Number(balance) / 1000000000 < 0.05\<close> is \<open>balance < 50000000\<close> on whole MIST.
\<close>

definition discoverTreasure :: "chain_env \<Rightarrow> string + minted" where
  "discoverTreasure chain =
     (case keypair_error chain of
        Some msg \<Rightarrow> Inl msg
      | None \<Rightarrow>
          if balance chain < 50000000
          then Inl ''Insufficient SUI balance for transaction. Need at least 0.05 SUI for gas.''
          else if \<not> registry_configured chain then Inl ''TREASURE_REGISTRY_ID not configured''
          else (case exec chain of
                  ExecThrows msg \<Rightarrow> Inl msg
                | ExecFailed err \<Rightarrow>
                    Inl (''Transaction failed: '' @
                         (case err of None \<Rightarrow> ''Unknown error''
                          | Some e \<Rightarrow> if e = [] then ''Unknown error'' else e))
                | ExecNoChanges \<Rightarrow> Inl ''Cannot read properties of undefined (reading 'find')''
                | ExecNoNft \<Rightarrow> Inl ''Failed to extract NFT object ID''
                | ExecMinted objectId digest \<Rightarrow>
                    if objectId = [] then Inl ''Failed to extract NFT object ID''
                    else Inr \<lparr>minted_nft = objectId, minted_digest = digest\<rparr>))"

section \<open>The discover handlers\<close>

text \<open>
  The body of \<open>POST /discover\<close> after authentication. The readings of the clock are
  inputs: \<open>t_nft\<close> and \<open>t_tx\<close> are the \<open>Date.now()\<close> of the two offline
  references, \<open>t_discovered\<close> the \<open>new Date()\<close> of \<open>discoveredAt\<close>, \<open>t_hunt\<close>
  and \<open>t_diff\<close> the two readings of the profile update.
\<close>

record discover_request =
  req_userId :: string
  req_treasureId :: string
  req_latitude :: real
  req_longitude :: real
  req_locationProof :: string

record clock =
  t_nft :: int
  t_tx :: int
  t_discovered :: int
  t_hunt :: int
  t_diff :: int

datatype response =
    ValidationErrors
  | TreasureNotFound
  | AlreadyDiscovered string int "string option"
  | TooFar "int option"
  | HunterProfileNotFound
  | RankTooLow nat nat "int option"
  | UserNotFound
  | BlockchainAlreadyFound
  | BlockchainLocationFailed
  | InsufficientGas
  | ServerError
  | Discovered discovery hunter_profile hunter_profile

text \<open>The express-validator chain of the route.\<close>

definition request_valid :: "discover_request \<Rightarrow> bool" where
  "request_valid req =
     (req_treasureId req \<noteq> [] \<and>
      - 90 \<le> req_latitude req \<and> req_latitude req \<le> 90 \<and>
      - 180 \<le> req_longitude req \<and> req_longitude req \<le> 180 \<and>
      req_locationProof req \<noteq> [])"

definition show_int :: "int \<Rightarrow> string" where
  "show_int i = (if i < 0 then CHR ''-'' # digits (nat (- i)) else digits (nat i))"

definition find_active_treasure :: "string \<Rightarrow> treasure list \<Rightarrow> treasure option" where
  "find_active_treasure tid ts = find (\<lambda>t. treasureId t = tid \<and> isActive t) ts"

definition find_discovery :: "string \<Rightarrow> discovery list \<Rightarrow> discovery option" where
  "find_discovery tid ds = find (\<lambda>d. d_treasureId d = tid) ds"

definition has_credentials :: "user \<Rightarrow> bool" where
  "has_credentials u = (truthy (profileObjectId u) \<and> truthy (encryptedPrivateKey u))"

text \<open>\<open>x || fallback\<close> on a string that is \<open>null\<close> or empty when nothing was minted.\<close>

definition or_else :: "string \<Rightarrow> string \<Rightarrow> string" where
  "or_else x fallback = (if x = [] then fallback else x)"

subsection \<open>First variant\<close>

text \<open>
  Every error of the chain call is caught by the inner \<open>catch\<close> and dropped. The errors
  that reach the outer \<open>catch\<close> are the failed \<open>save()\<close> of the discovery and the
  \<open>TypeError\<close> of reading \<open>hunterProfile.rank\<close> on \<open>null\<close>; their messages match
  none of the three patterns tested there, so the response is the 500.
\<close>

definition discover_v1 ::
  "chain_env \<Rightarrow> clock \<Rightarrow> discover_request \<Rightarrow> store \<Rightarrow> response \<times> store" where
  "discover_v1 chain clk req s =
     (if \<not> request_valid req then (ValidationErrors, s)
      else case find_active_treasure (req_treasureId req) (treasures s) of
        None \<Rightarrow> (TreasureNotFound, s)
      | Some treasure \<Rightarrow>
      (case find_discovery (req_treasureId req) (discoveries s) of
        Some existingDiscovery \<Rightarrow>
          (AlreadyDiscovered (d_userId existingDiscovery) (discoveredAt existingDiscovery) None, s)
      | None \<Rightarrow>
      (let distance = distance_to (req_latitude req) (req_longitude req)
                        (latitude treasure) (longitude treasure) in
       if too_far distance then (TooFar (math_round distance), s)
       else
       (let hunterProfile = profiles s (req_userId req);
            userRank = getRankNumber (case hunterProfile of None \<Rightarrow> Beginner | Some p \<Rightarrow> rank p) in
        if userRank < requiredRank treasure
        then (RankTooLow userRank (requiredRank treasure) None, s)
        else
        (case users s (req_userId req) of
          None \<Rightarrow> (UserNotFound, s)
        | Some user \<Rightarrow>
        (let discoveryResult =
               (if has_credentials user
                then (case discoverTreasure chain of Inl blockchainError \<Rightarrow> None | Inr r \<Rightarrow> Some r)
                else None);
             nftObjectId = (case discoveryResult of None \<Rightarrow> [] | Some r \<Rightarrow> minted_nft r);
             transactionDigest = (case discoveryResult of None \<Rightarrow> [] | Some r \<Rightarrow> minted_digest r);
             treasureDiscovery =
               \<lparr>d_userId = req_userId req,
                d_treasureId = req_treasureId req,
                nftObjectId = or_else nftObjectId (''offline_'' @ show_int (t_nft clk)),
                transactionDigest = or_else transactionDigest ''offline_transaction'',
                proof_latitude = req_latitude req,
                proof_longitude = req_longitude req,
                proof_distance = math_round distance,
                blockchainSuccess = None,
                offline = (discoveryResult = None),
                autoGeneratedTreasure = None,
                discoveredAt = t_discovered clk\<rparr>
         in case save_discovery treasureDiscovery (discoveries s) of
              Inl err \<Rightarrow> (ServerError, s)
            | Inr ledger \<Rightarrow>
              (let s1 = s\<lparr>discoveries := ledger\<rparr> in
               case hunterProfile of
                 None \<Rightarrow> (ServerError, s1)
               | Some p \<Rightarrow>
                 (let p' = update_profile (t_hunt clk) (t_diff clk) (rewardPoints treasure) p
                  in (Discovered treasureDiscovery p p',
                      s1\<lparr>profiles := (profiles s1)(req_userId req \<mapsto> p')\<rparr>)))))))))"

subsection \<open>Second variant: treasure synthesis\<close>

text \<open>
  \<open>parseBlockchainTreasure\<close>. \<open>parseFloat(coord.trim())\<close> is the parameter \<open>pf\<close>
  (\<open>None\<close> when the result is \<open>NaN\<close> or infinite); a missing second element of the
  split is \<open>undefined\<close>.
\<close>

definition knownTreasures :: "string \<Rightarrow> (nat \<times> nat \<times> nat) option" where
  "knownTreasures tid =
     (if tid = ''TREASURE_001'' then Some (3, 2, 500)
      else if tid = ''VN_COMMON_001'' then Some (1, 1, 150)
      else None)"

definition id_defaults :: "string \<Rightarrow> nat \<times> nat \<times> nat" where
  "id_defaults tid =
     (if str_includes tid ''LEGENDARY'' \<or> str_includes tid ''DRAGON'' \<or> str_includes tid ''EPIC''
      then (3, 3, 500)
      else if str_includes tid ''RARE'' \<or> str_includes tid ''GOLDEN'' \<or> str_includes tid ''ROYAL''
      then (2, 2, 300)
      else if str_includes tid ''COMMON'' \<or> str_includes tid ''BRONZE'' \<or> str_includes tid ''BASIC''
      then (1, 1, 150)
      else (1, 1, 100))"

definition parseBlockchainTreasure :: "(string \<Rightarrow> jsnum) \<Rightarrow> string \<Rightarrow> string \<Rightarrow> treasure" where
  "parseBlockchainTreasure pf tid coords =
     (let parts = map pf (split_comma coords);
          lat = (case parts of [] \<Rightarrow> None | a # rest \<Rightarrow> a);
          lng = (case parts of [] \<Rightarrow> None | a # rest \<Rightarrow> (case rest of [] \<Rightarrow> None | b # others \<Rightarrow> b));
          (rarity0, requiredRank0, baseReward) = id_defaults tid;
          knownData = knownTreasures tid
      in \<lparr>treasureId = tid,
          coordinates = (case lng of None \<Rightarrow> None
                         | Some x \<Rightarrow> (case lat of None \<Rightarrow> None | Some y \<Rightarrow> Some (x, y))),
          latitude = lat,
          longitude = lng,
          rarity = (case knownData of None \<Rightarrow> rarity0 | Some (r, rr, rp) \<Rightarrow> r),
          rewardPoints = (case knownData of None \<Rightarrow> baseReward | Some (r, rr, rp) \<Rightarrow> rp),
          requiredRank = (case knownData of None \<Rightarrow> requiredRank0 | Some (r, rr, rp) \<Rightarrow> rr),
          isActive = True\<rparr>)"

text \<open>
  Step 1 of the second variant: the stored active treasure, or else the synthesized one
  with \<open>fromBlockchain\<close> set. \<open>locationProof\<close> is not empty after validation, so it
  is the coordinate string.
\<close>

definition resolve_treasure ::
  "(string \<Rightarrow> jsnum) \<Rightarrow> discover_request \<Rightarrow> treasure list \<Rightarrow> treasure \<times> bool" where
  "resolve_treasure pf req ts =
     (case find_active_treasure (req_treasureId req) ts of
        None \<Rightarrow> (parseBlockchainTreasure pf (req_treasureId req) (req_locationProof req), True)
      | Some t \<Rightarrow> (t, False))"

text \<open>
  Step 9 of the second variant: \<open>new Treasure({...}).save()\<close> inside its own
  \<open>try\<close>. The schema trims \<open>treasureId\<close>, validates the coordinates and the
  name (\<open>name_ok\<close> says whether the name generated from the id passes
  \<open>maxlength: 100\<close>), and the unique index rejects a stored id; a failure is ignored.
\<close>

text \<open>
  \<open>String.prototype.trim\<close> removes white space and line terminators from both ends.
  A string is its UTF-8 bytes here, so each of these code points is a byte sequence:
  U+0009 to U+000D, U+0020, U+00A0, U+1680, U+2000 to U+200A, U+2028, U+2029, U+202F,
  U+205F, U+3000 and U+FEFF.
\<close>

definition white_space :: "string list" where
  "white_space =
     [[CHR 0x09], [CHR 0x0A], [CHR 0x0B], [CHR 0x0C], [CHR 0x0D], [CHR 0x20],
      [CHR 0xC2, CHR 0xA0],
      [CHR 0xE1, CHR 0x9A, CHR 0x80],
      [CHR 0xE2, CHR 0x80, CHR 0x80], [CHR 0xE2, CHR 0x80, CHR 0x81],
      [CHR 0xE2, CHR 0x80, CHR 0x82], [CHR 0xE2, CHR 0x80, CHR 0x83],
      [CHR 0xE2, CHR 0x80, CHR 0x84], [CHR 0xE2, CHR 0x80, CHR 0x85],
      [CHR 0xE2, CHR 0x80, CHR 0x86], [CHR 0xE2, CHR 0x80, CHR 0x87],
      [CHR 0xE2, CHR 0x80, CHR 0x88], [CHR 0xE2, CHR 0x80, CHR 0x89],
      [CHR 0xE2, CHR 0x80, CHR 0x8A],
      [CHR 0xE2, CHR 0x80, CHR 0xA8], [CHR 0xE2, CHR 0x80, CHR 0xA9],
      [CHR 0xE2, CHR 0x80, CHR 0xAF],
      [CHR 0xE2, CHR 0x81, CHR 0x9F],
      [CHR 0xE3, CHR 0x80, CHR 0x80],
      [CHR 0xEF, CHR 0xBB, CHR 0xBF]]"

fun strip_leading :: "string list \<Rightarrow> nat \<Rightarrow> string \<Rightarrow> string" where
  "strip_leading ws 0 s = s"
| "strip_leading ws (Suc n) s =
     (case find (\<lambda>w. prefix w s) ws of None \<Rightarrow> s
      | Some w \<Rightarrow> strip_leading ws n (drop (length w) s))"

definition trim :: "string \<Rightarrow> string" where
  "trim s = (let front = strip_leading white_space (length s) s
             in rev (strip_leading (map rev white_space) (length front) (rev front)))"

definition coordinates_valid :: "(real \<times> real) option \<Rightarrow> bool" where
  "coordinates_valid c =
     (case c of None \<Rightarrow> False
      | Some (x, y) \<Rightarrow> - 180 \<le> x \<and> x \<le> 180 \<and> - 90 \<le> y \<and> y \<le> 90)"

definition save_generated_treasure :: "(string \<Rightarrow> bool) \<Rightarrow> treasure \<Rightarrow> treasure list \<Rightarrow> treasure list" where
  "save_generated_treasure name_ok t ts =
     (let newTreasure =
            \<lparr>treasureId = trim (treasureId t),
             coordinates = (case longitude t of None \<Rightarrow> None
                            | Some x \<Rightarrow> (case latitude t of None \<Rightarrow> None | Some y \<Rightarrow> Some (x, y))),
             latitude = None,
             longitude = None,
             rarity = rarity t,
             rewardPoints = rewardPoints t,
             requiredRank = requiredRank t,
             isActive = True\<rparr>
      in if treasureId newTreasure \<noteq> [] \<and> coordinates_valid (coordinates newTreasure) \<and>
            (knownTreasures (treasureId t) \<noteq> None \<or> name_ok (treasureId t)) \<and>
            \<not> list_ex (\<lambda>e. treasureId e = treasureId newTreasure) ts
         then ts @ [newTreasure] else ts)"

text \<open>
  Step 6 of the second variant: the chain call and the \<open>catch\<close> that answers three
  messages with a 400 and continues offline on every other error.
\<close>

definition chain_attempt_v2 :: "user \<Rightarrow> chain_env \<Rightarrow> response + minted option" where
  "chain_attempt_v2 u chain =
     (if has_credentials u
      then (case discoverTreasure chain of
              Inr r \<Rightarrow> Inr (Some r)
            | Inl message \<Rightarrow>
                if str_includes message ''E_TREASURE_ALREADY_FOUND'' then Inl BlockchainAlreadyFound
                else if str_includes message ''E_INVALID_LOCATION'' then Inl BlockchainLocationFailed
                else if str_includes message ''Insufficient SUI balance'' then Inl InsufficientGas
                else Inr None)
      else Inr None)"

definition discover_v2 ::
  "(string \<Rightarrow> jsnum) \<Rightarrow> (string \<Rightarrow> bool) \<Rightarrow> chain_env \<Rightarrow> clock \<Rightarrow> discover_request \<Rightarrow> store
     \<Rightarrow> response \<times> store" where
  "discover_v2 pf name_ok chain clk req s =
     (if \<not> request_valid req then (ValidationErrors, s)
      else
      (let (treasure, fromBlockchain) = resolve_treasure pf req (treasures s) in
       case find_discovery (req_treasureId req) (discoveries s) of
         Some existingDiscovery \<Rightarrow>
           (AlreadyDiscovered (d_userId existingDiscovery) (discoveredAt existingDiscovery)
              (Some (nftObjectId existingDiscovery)), s)
       | None \<Rightarrow>
       (let distance = distance_to (req_latitude req) (req_longitude req)
                         (latitude treasure) (longitude treasure) in
        if too_far distance then (TooFar (math_round distance), s)
        else
        (case profiles s (req_userId req) of
           None \<Rightarrow> (HunterProfileNotFound, s)
         | Some hunterProfile \<Rightarrow>
         (let userRank = getRankNumber (rank hunterProfile) in
          if userRank < requiredRank treasure
          then (RankTooLow userRank (requiredRank treasure)
                  (Some (int (getTreasuresNeededForRank (requiredRank treasure))
                         - int (totalTreasuresFound hunterProfile))), s)
          else
          (case users s (req_userId req) of
             None \<Rightarrow> (UserNotFound, s)
           | Some user \<Rightarrow>
           (case chain_attempt_v2 user chain of
              Inl rejection \<Rightarrow> (rejection, s)
            | Inr discoveryResult \<Rightarrow>
            (let blockchainSuccess = (discoveryResult \<noteq> None);
                 nftObjectId = (case discoveryResult of None \<Rightarrow> [] | Some r \<Rightarrow> minted_nft r);
                 transactionDigest = (case discoveryResult of None \<Rightarrow> [] | Some r \<Rightarrow> minted_digest r);
                 treasureDiscovery =
                   \<lparr>d_userId = req_userId req,
                    d_treasureId = req_treasureId req,
                    nftObjectId = or_else nftObjectId
                      (''offline_'' @ req_treasureId req @ ''_'' @ show_int (t_nft clk)),
                    transactionDigest = or_else transactionDigest (''offline_tx_'' @ show_int (t_tx clk)),
                    proof_latitude = req_latitude req,
                    proof_longitude = req_longitude req,
                    proof_distance = math_round distance,
                    blockchainSuccess = Some blockchainSuccess,
                    offline = (\<not> blockchainSuccess),
                    autoGeneratedTreasure = Some fromBlockchain,
                    discoveredAt = t_discovered clk\<rparr>
             in case save_discovery treasureDiscovery (discoveries s) of
                  Inl err \<Rightarrow> (ServerError, s)
                | Inr ledger \<Rightarrow>
                  (let p' = update_profile (t_hunt clk) (t_diff clk) (rewardPoints treasure) hunterProfile;
                       s1 = s\<lparr>discoveries := ledger,
                              profiles := (profiles s)(req_userId req \<mapsto> p')\<rparr>;
                       s2 = (if fromBlockchain
                             then s1\<lparr>treasures := save_generated_treasure name_ok treasure (treasures s1)\<rparr>
                             else s1)
                   in (Discovered treasureDiscovery hunterProfile p', s2))))))))))"

section \<open>The nearby query\<close>

record nearby_request =
  n_userId :: string
  n_lat :: real
  n_lng :: real
  n_radius :: "int option"

record nearby_item =
  item_treasureId :: string
  item_rewardPoints :: nat
  item_requiredRank :: nat
  item_distance :: "int option"
  item_canHunt :: bool

datatype nearby_response = NearbyValidationErrors | NearbyOk "nearby_item list"

definition nearby_valid :: "nearby_request \<Rightarrow> bool" where
  "nearby_valid req =
     (- 90 \<le> n_lat req \<and> n_lat req \<le> 90 \<and> - 180 \<le> n_lng req \<and> n_lng req \<le> 180 \<and>
      (case n_radius req of None \<Rightarrow> True | Some r \<Rightarrow> 100 \<le> r \<and> r \<le> 50000))"

text \<open>
  \<open>Treasure.find({location: {$near: ...}, isActive: true}).limit(20)\<close>. MongoDB's
  distance between the query point and a document's coordinates is the parameter
  \<open>geo_dist\<close>; the query keeps the active documents within \<open>$maxDistance\<close>,
  nearest first, and the limit cuts the list to 20.
\<close>

definition geo_key :: "(real \<times> real \<Rightarrow> real \<times> real \<Rightarrow> real) \<Rightarrow> real \<times> real \<Rightarrow> treasure \<Rightarrow> real" where
  "geo_key geo_dist q t = (case coordinates t of None \<Rightarrow> 0 | Some c \<Rightarrow> geo_dist q c)"

definition within_distance ::
  "(real \<times> real \<Rightarrow> real \<times> real \<Rightarrow> real) \<Rightarrow> real \<times> real \<Rightarrow> real \<Rightarrow> treasure \<Rightarrow> bool" where
  "within_distance geo_dist q maxDistance t =
     (case coordinates t of None \<Rightarrow> False | Some c \<Rightarrow> geo_dist q c \<le> maxDistance)"

definition near_query ::
  "(real \<times> real \<Rightarrow> real \<times> real \<Rightarrow> real) \<Rightarrow> real \<times> real \<Rightarrow> real \<Rightarrow> treasure list \<Rightarrow> treasure list" where
  "near_query geo_dist q maxDistance ts =
     take 20 (sort_key (geo_key geo_dist q)
       (filter (\<lambda>t. isActive t \<and> within_distance geo_dist q maxDistance t) ts))"

text \<open>
  \<open>treasuresWithDistance.sort((a, b) => a.distance - b.distance)\<close>: a comparator
  value of \<open>NaN\<close> counts as 0. The sort is stable; it is written here as insertion
  from the right, which gives the result of every stable sort when the comparator is
  consistent (all distances numbers, or all \<open>NaN\<close>).
\<close>

definition distance_le :: "nearby_item \<Rightarrow> nearby_item \<Rightarrow> bool" where
  "distance_le a b =
     (case item_distance a of None \<Rightarrow> True
      | Some x \<Rightarrow> (case item_distance b of None \<Rightarrow> True | Some y \<Rightarrow> x - y \<le> 0))"

fun js_insort :: "nearby_item \<Rightarrow> nearby_item list \<Rightarrow> nearby_item list" where
  "js_insort a [] = [a]"
| "js_insort a (b # bs) = (if distance_le a b then a # b # bs else b # js_insort a bs)"

definition js_sort :: "nearby_item list \<Rightarrow> nearby_item list" where
  "js_sort xs = foldr js_insort xs []"

definition nearby ::
  "(real \<times> real \<Rightarrow> real \<times> real \<Rightarrow> real) \<Rightarrow> nearby_request \<Rightarrow> store \<Rightarrow> nearby_response" where
  "nearby geo_dist req s =
     (if \<not> nearby_valid req then NearbyValidationErrors
      else
      (let radius = (case n_radius req of None \<Rightarrow> 5000 | Some r \<Rightarrow> r);
           found = near_query geo_dist (n_lng req, n_lat req) (real_of_int radius) (treasures s);
           discoveredTreasureIds = remdups (map d_treasureId (discoveries s));
           availableTreasures = filter (\<lambda>t. treasureId t \<notin> set discoveredTreasureIds) found;
           userRank = getRankNumber (case profiles s (n_userId req) of None \<Rightarrow> Beginner
                                     | Some p \<Rightarrow> rank p);
           treasuresWithDistance =
             map (\<lambda>t. \<lparr>item_treasureId = treasureId t,
                       item_rewardPoints = rewardPoints t,
                       item_requiredRank = requiredRank t,
                       item_distance = math_round (distance_to (n_lat req) (n_lng req)
                                                     (latitude t) (longitude t)),
                       item_canHunt = (userRank \<ge> requiredRank t)\<rparr>) availableTreasures
       in NearbyOk (js_sort treasuresWithDistance)))"

section \<open>Reachable stores\<close>

text \<open>
  The discovery collection is written by the two discover handlers and emptied by the
  seed script; every other route leaves it as it is.
\<close>

inductive reachable :: "store \<Rightarrow> bool" where
  seeded: "discoveries s = [] \<Longrightarrow> reachable s"
| by_v1: "reachable s \<Longrightarrow> reachable (snd (discover_v1 chain clk req s))"
| by_v2: "reachable s \<Longrightarrow> reachable (snd (discover_v2 pf name_ok chain clk req s))"
| by_other: "reachable s \<Longrightarrow> discoveries s' = discoveries s \<Longrightarrow> reachable s'"

definition at_most_one_per_treasure :: "discovery list \<Rightarrow> bool" where
  "at_most_one_per_treasure ledger = distinct (map d_treasureId ledger)"

text \<open>The three unique indexes of the discovery collection, as a property of its content.\<close>

definition unique_indexes :: "discovery list \<Rightarrow> bool" where
  "unique_indexes ledger =
     (distinct (map d_treasureId ledger) \<and> distinct (map nftObjectId ledger) \<and>
      distinct (map transactionDigest ledger))"

text \<open>The order of two entries whose reported distances are both numbers.\<close>

definition num_le :: "nearby_item \<Rightarrow> nearby_item \<Rightarrow> bool" where
  "num_le a b = (\<exists>x y. item_distance a = Some x \<and> item_distance b = Some y \<and> x \<le> y)"

section \<open>Concrete data\<close>

text \<open>
  A treasure, a profile and a user of the seed script. The treasure takes the values of
  its \<open>latitude\<close> and \<open>longitude\<close> properties as arguments, so that a run can be
  stated both for a document without these properties and for one that carries them.
  The profile's last hunt is 48 hours before the clock of \<open>example_clock\<close>.
\<close>

definition old_quarter :: "jsnum \<Rightarrow> jsnum \<Rightarrow> treasure" where
  "old_quarter la lo =
     \<lparr>treasureId = ''hanoi_old_quarter_001'', coordinates = Some (105.8520, 21.0351),
      latitude = la, longitude = lo, rarity = 1, rewardPoints = 150, requiredRank = 1,
      isActive = True\<rparr>"

definition explorer_profile :: hunter_profile where
  "explorer_profile =
     \<lparr>rank = Explorer, totalTreasuresFound = 12, totalScore = 2400, currentStreak = 5,
      longestStreak = 14, lastHuntTimestamp = Some 1699827200000\<rparr>"

definition beginner_profile :: hunter_profile where
  "beginner_profile =
     \<lparr>rank = Beginner, totalTreasuresFound = 0, totalScore = 0, currentStreak = 0,
      longestStreak = 0, lastHuntTimestamp = None\<rparr>"

definition chain_user :: user where
  "chain_user =
     \<lparr>profileObjectId = Some ''0x4444444444444444444444444444444444444444444444444444444444444444'',
      encryptedPrivateKey = Some ''sample_encrypted_key_2''\<rparr>"

definition plain_user :: user where
  "plain_user = \<lparr>profileObjectId = None, encryptedPrivateKey = None\<rparr>"

text \<open>
  Player \<open>u1\<close> has a profile and chain credentials, \<open>u2\<close> has neither, \<open>u3\<close>
  has a profile and no credentials.
\<close>

definition example_store :: "jsnum \<Rightarrow> jsnum \<Rightarrow> store" where
  "example_store la lo =
     \<lparr>treasures = [old_quarter la lo], discoveries = [],
      profiles = [''u1'' \<mapsto> explorer_profile, ''u3'' \<mapsto> beginner_profile],
      users = [''u1'' \<mapsto> chain_user, ''u2'' \<mapsto> plain_user, ''u3'' \<mapsto> plain_user]\<rparr>"

definition example_clock :: clock where
  "example_clock =
     \<lparr>t_nft = 1700000000000, t_tx = 1700000000000, t_discovered = 1700000000000,
      t_hunt = 1700000000001, t_diff = 1700000000001\<rparr>"

definition example_request :: "string \<Rightarrow> discover_request" where
  "example_request uid =
     \<lparr>req_userId = uid, req_treasureId = ''hanoi_old_quarter_001'',
      req_latitude = 21.0351, req_longitude = 105.8520,
      req_locationProof = ''21.0351,105.8520''\<rparr>"

text \<open>
  The same claim made from latitude -68.9649 on the treasure's meridian, a quarter of a
  great circle (about 10 007 km) away from the treasure, and a claim from there for an
  id that is not stored, with the treasure's location in \<open>locationProof\<close>.
\<close>

definition far_request :: "string \<Rightarrow> discover_request" where
  "far_request uid =
     \<lparr>req_userId = uid, req_treasureId = ''hanoi_old_quarter_001'',
      req_latitude = - 68.9649, req_longitude = 105.8520,
      req_locationProof = ''-68.9649,105.8520''\<rparr>"

definition far_request_unknown :: "string \<Rightarrow> discover_request" where
  "far_request_unknown uid =
     \<lparr>req_userId = uid, req_treasureId = ''VN_BRONZE_DRUM_002'',
      req_latitude = - 68.9649, req_longitude = 105.8520,
      req_locationProof = ''21.0351,105.8520''\<rparr>"

text \<open>A wallet without funds, and a chain that aborts the call with the Move error.\<close>

definition chain_broke :: chain_env where
  "chain_broke =
     \<lparr>keypair_error = None, balance = 0, registry_configured = True, exec = ExecNoNft\<rparr>"

definition chain_already_found :: chain_env where
  "chain_already_found =
     \<lparr>keypair_error = None, balance = 1000000000, registry_configured = True,
      exec = ExecFailed (Some ''MoveAbort: E_TREASURE_ALREADY_FOUND'')\<rparr>"

definition chain_unconfigured :: chain_env where
  "chain_unconfigured =
     \<lparr>keypair_error = None, balance = 1000000000, registry_configured = False,
      exec = ExecNoNft\<rparr>"

text \<open>\<open>parseFloat\<close> on the two numerals of the example's location proof.\<close>

definition example_parseFloat :: "string \<Rightarrow> jsnum" where
  "example_parseFloat str =
     (if str = ''21.0351'' then Some 21.0351
      else if str = ''105.8520'' then Some 105.8520
      else None)"

definition example_name_ok :: "string \<Rightarrow> bool" where
  "example_name_ok tid = True"

text \<open>The same store with the treasure deactivated.\<close>

definition closed_store :: "jsnum \<Rightarrow> jsnum \<Rightarrow> store" where
  "closed_store la lo = (example_store la lo)\<lparr>treasures := [(old_quarter la lo)\<lparr>isActive := False\<rparr>]\<rparr>"

text \<open>The same store after an offline discovery of another treasure by the first variant.\<close>

definition west_lake_offline :: discovery where
  "west_lake_offline =
     \<lparr>d_userId = ''u1'', d_treasureId = ''hanoi_west_lake_001'',
      nftObjectId = ''offline_1699990000000'', transactionDigest = ''offline_transaction'',
      proof_latitude = 21.0545, proof_longitude = 105.8252, proof_distance = None,
      blockchainSuccess = None, offline = True, autoGeneratedTreasure = None,
      discoveredAt = 1699990000000\<rparr>"

definition store_after_offline :: "jsnum \<Rightarrow> jsnum \<Rightarrow> store" where
  "store_after_offline la lo = (example_store la lo)\<lparr>discoveries := [west_lake_offline]\<rparr>"

text \<open>
  Twenty discovered treasures at one point and an undiscovered one about 400 m away,
  all active. \<open>flat_dist\<close> stands in for MongoDB's distance: it is 0 at the query
  point and within the radius at the far treasure, which is all the run depends on.
\<close>

definition crowd_treasure :: "jsnum \<Rightarrow> jsnum \<Rightarrow> nat \<Rightarrow> treasure" where
  "crowd_treasure la lo i =
     \<lparr>treasureId = ''found_'' @ digits i, coordinates = Some (105.8520, 21.0351),
      latitude = la, longitude = lo, rarity = 1, rewardPoints = 100, requiredRank = 1,
      isActive = True\<rparr>"

definition crowd_discovery :: "nat \<Rightarrow> discovery" where
  "crowd_discovery i =
     \<lparr>d_userId = ''u1'', d_treasureId = ''found_'' @ digits i,
      nftObjectId = ''offline_found_'' @ digits i @ ''_1699990000000'',
      transactionDigest = ''offline_tx_169999000000'' @ digits i,
      proof_latitude = 21.0351, proof_longitude = 105.8520, proof_distance = None,
      blockchainSuccess = Some False, offline = True, autoGeneratedTreasure = Some False,
      discoveredAt = 1699990000000\<rparr>"

definition dong_xuan :: "jsnum \<Rightarrow> jsnum \<Rightarrow> treasure" where
  "dong_xuan la lo =
     \<lparr>treasureId = ''hanoi_dong_xuan_001'', coordinates = Some (105.8500, 21.0380),
      latitude = la, longitude = lo, rarity = 1, rewardPoints = 120, requiredRank = 1,
      isActive = True\<rparr>"

definition crowd_store :: "jsnum \<Rightarrow> jsnum \<Rightarrow> jsnum \<Rightarrow> jsnum \<Rightarrow> store" where
  "crowd_store la lo la' lo' =
     \<lparr>treasures = dong_xuan la' lo' # map (crowd_treasure la lo) [0..<20],
      discoveries = map crowd_discovery [0..<20],
      profiles = [''u1'' \<mapsto> explorer_profile],
      users = [''u1'' \<mapsto> chain_user]\<rparr>"

definition flat_dist :: "real \<times> real \<Rightarrow> real \<times> real \<Rightarrow> real" where
  "flat_dist q c = 111000 * (\<bar>fst c - fst q\<bar> + \<bar>snd c - snd q\<bar>)"

definition example_nearby :: nearby_request where
  "example_nearby = \<lparr>n_userId = ''u1'', n_lat = 21.0351, n_lng = 105.8520, n_radius = None\<rparr>"

text \<open>
  A store as the schema has it (no document with a \<open>latitude\<close> or \<open>longitude\<close>
  property) with twenty-one active treasures within 5 km of the query point: three
  undiscovered treasures of the seed script, stored farthest first, and eighteen
  discovered treasures at one point between the second and the third of them.
\<close>

definition long_bien :: treasure where
  "long_bien =
     \<lparr>treasureId = ''hanoi_long_bien_001'', coordinates = Some (105.8667, 21.0447),
      latitude = None, longitude = None, rarity = 1, rewardPoints = 180, requiredRank = 1,
      isActive = True\<rparr>"

definition taken_treasure :: "nat \<Rightarrow> treasure" where
  "taken_treasure i =
     \<lparr>treasureId = ''taken_'' @ digits i, coordinates = Some (105.8600, 21.0400),
      latitude = None, longitude = None, rarity = 1, rewardPoints = 100, requiredRank = 1,
      isActive = True\<rparr>"

definition taken_discovery :: "nat \<Rightarrow> discovery" where
  "taken_discovery i =
     \<lparr>d_userId = ''u1'', d_treasureId = ''taken_'' @ digits i,
      nftObjectId = ''offline_taken_'' @ digits i @ ''_1699990000000'',
      transactionDigest = ''offline_tx_169999000000'' @ digits i,
      proof_latitude = 21.0400, proof_longitude = 105.8600, proof_distance = None,
      blockchainSuccess = Some False, offline = True, autoGeneratedTreasure = Some False,
      discoveredAt = 1699990000000\<rparr>"

definition busy_store :: store where
  "busy_store =
     \<lparr>treasures = long_bien # dong_xuan None None # old_quarter None None
                    # map taken_treasure [0..<18],
      discoveries = map taken_discovery [0..<18],
      profiles = [''u1'' \<mapsto> explorer_profile],
      users = [''u1'' \<mapsto> chain_user]\<rparr>"

text \<open>
  What the runs below produce: the offline record of the first variant for the example
  request (by player and rounded distance), the one of the second variant, and the two
  profiles after one more discovery.
\<close>

definition v1_offline_record :: "string \<Rightarrow> int option \<Rightarrow> discovery" where
  "v1_offline_record uid rounded =
     \<lparr>d_userId = uid, d_treasureId = ''hanoi_old_quarter_001'',
      nftObjectId = ''offline_1700000000000'', transactionDigest = ''offline_transaction'',
      proof_latitude = 21.0351, proof_longitude = 105.8520, proof_distance = rounded,
      blockchainSuccess = None, offline = True, autoGeneratedTreasure = None,
      discoveredAt = 1700000000000\<rparr>"

definition v2_offline_record :: "string \<Rightarrow> bool \<Rightarrow> int option \<Rightarrow> discovery" where
  "v2_offline_record uid generated rounded =
     \<lparr>d_userId = uid, d_treasureId = ''hanoi_old_quarter_001'',
      nftObjectId = ''offline_hanoi_old_quarter_001_1700000000000'',
      transactionDigest = ''offline_tx_1700000000000'',
      proof_latitude = 21.0351, proof_longitude = 105.8520, proof_distance = rounded,
      blockchainSuccess = Some False, offline = True, autoGeneratedTreasure = Some generated,
      discoveredAt = 1700000000000\<rparr>"

definition explorer_after :: hunter_profile where
  "explorer_after =
     \<lparr>rank = Explorer, totalTreasuresFound = 13, totalScore = 2550, currentStreak = 6,
      longestStreak = 14, lastHuntTimestamp = Some 1700000000001\<rparr>"

definition beginner_after :: "nat \<Rightarrow> hunter_profile" where
  "beginner_after reward =
     \<lparr>rank = Beginner, totalTreasuresFound = 1, totalScore = reward, currentStreak = 1,
      longestStreak = 1, lastHuntTimestamp = Some 1700000000001\<rparr>"

text \<open>The entry of the nearby answer for the example treasure.\<close>

definition old_quarter_item :: "int option \<Rightarrow> nearby_item" where
  "old_quarter_item rounded =
     \<lparr>item_treasureId = ''hanoi_old_quarter_001'', item_rewardPoints = 150,
      item_requiredRank = 1, item_distance = rounded, item_canHunt = True\<rparr>"

definition dong_xuan_item :: "int option \<Rightarrow> nearby_item" where
  "dong_xuan_item rounded =
     \<lparr>item_treasureId = ''hanoi_dong_xuan_001'', item_rewardPoints = 120,
      item_requiredRank = 1, item_distance = rounded, item_canHunt = True\<rparr>"

section \<open>Facts about the model\<close>

lemmas example_defs =
  old_quarter_def explorer_profile_def beginner_profile_def chain_user_def plain_user_def
  example_store_def example_clock_def example_request_def chain_broke_def
  chain_already_found_def chain_unconfigured_def example_parseFloat_def example_name_ok_def closed_store_def
  west_lake_offline_def store_after_offline_def v1_offline_record_def v2_offline_record_def
  explorer_after_def beginner_after_def far_request_def far_request_unknown_def

lemmas handler_defs =
  discover_v1_def discover_v2_def request_valid_def find_active_treasure_def
  find_discovery_def distance_to_def too_far_def js_gt_def math_round_def has_credentials_def
  truthy_def discoverTreasure_def or_else_def show_int_def save_discovery_def
  discovery_valid_def key_clash_def nft_valid_def digest_valid_def chain_attempt_v2_def
  resolve_treasure_def update_profile_def updateHunterRank_def getTime_or_0_def Let_def
  parseBlockchainTreasure_def id_defaults_def knownTreasures_def save_generated_treasure_def
  coordinates_valid_def trim_def white_space_def

lemma digits_example_clock [simp]: "digits 1700000000000 = ''1700000000000''"
  by (simp add: digits.simps digit_char_def)

subsection \<open>Distance\<close>

lemma calculateDistance_self [simp]: "calculateDistance lat lng lat lng = 0"
  by (simp add: calculateDistance_def atan2_def)

lemma sin_sq_swap:
  "sin ((b - a) * pi / 180 / 2) * sin ((b - a) * pi / 180 / 2) =
   sin ((a - b) * pi / 180 / 2) * sin ((a - b) * pi / 180 / 2)"
proof -
  have "(b - a) * pi / 180 / 2 = - ((a - b) * pi / 180 / 2)"
    by (simp add: field_simps)
  then show ?thesis
    by (simp only: sin_minus minus_mult_minus)
qed

lemma calculateDistance_sym:
  "calculateDistance la1 lg1 la2 lg2 = calculateDistance la2 lg2 la1 lg1"
  unfolding calculateDistance_def Let_def
  using sin_sq_swap [of la2 la1] sin_sq_swap [of lg2 lg1]
  by (simp add: mult.commute mult.left_commute mult.assoc)

lemma chain_attempt_v2_Inl:
  "chain_attempt_v2 u chain = Inl r \<Longrightarrow>
   r = BlockchainAlreadyFound \<or> r = BlockchainLocationFailed \<or> r = InsufficientGas"
  by (auto simp: chain_attempt_v2_def split: if_splits sum.splits)

lemma v1_too_far_iff:
  assumes "request_valid req"
    and "find_active_treasure (req_treasureId req) (treasures s) = Some t"
    and "find_discovery (req_treasureId req) (discoveries s) = None"
  shows "(fst (discover_v1 chain clk req s) =
            TooFar (math_round (distance_to (req_latitude req) (req_longitude req)
                                  (latitude t) (longitude t))))
         \<longleftrightarrow> too_far (distance_to (req_latitude req) (req_longitude req) (latitude t) (longitude t))"
  using assms unfolding discover_v1_def Let_def
  by (auto split: option.splits sum.splits)

lemma v2_too_far_iff:
  assumes "request_valid req"
    and "resolve_treasure pf req (treasures s) = (t, gen)"
    and "find_discovery (req_treasureId req) (discoveries s) = None"
  shows "(fst (discover_v2 pf nk chain clk req s) =
            TooFar (math_round (distance_to (req_latitude req) (req_longitude req)
                                  (latitude t) (longitude t))))
         \<longleftrightarrow> too_far (distance_to (req_latitude req) (req_longitude req) (latitude t) (longitude t))"
  using assms unfolding discover_v2_def Let_def
  by (auto split: option.splits sum.splits dest: chain_attempt_v2_Inl)

lemma too_far_threshold: "too_far (Some x) \<longleftrightarrow> x > 100"
  by (simp add: too_far_def js_gt_def)

lemma too_far_boundary: "\<not> too_far (Some 100) \<and> too_far (Some 100.01) \<and> \<not> too_far None"
  by (simp add: too_far_def js_gt_def)

text \<open>
  A quarter of a great circle along a meridian: from latitude -68.9649 to latitude
  21.0351 the haversine formula gives \<open>R * pi / 2\<close>, about 10 007 km.
\<close>

lemma quarter_turn:
  "calculateDistance (- 68.9649) 105.8520 21.0351 105.8520 = 6371000 * (pi / 2)"
proof -
  have dphi: "(21.0351 - (- 68.9649)) * pi / 180 / 2 = pi / (4::real)" by simp
  have a: "sin (pi / 4) * sin (pi / 4) = (1 / 2 :: real)" by (simp add: sin_45)
  have s: "sqrt (1 / 2) > 0" by simp
  have "atan2 (sqrt (1 / 2)) (sqrt (1 / 2)) = pi / 4"
    using s by (simp add: atan2_def arctan_one)
  then show ?thesis unfolding calculateDistance_def Let_def by (simp add: dphi a)
qed

lemma quarter_turn_too_far: "too_far (Some (6371000 * (pi / 2)))"
  using pi_ge_two by (simp add: too_far_def js_gt_def)

text \<open>
  The handlers pass \<open>treasure.latitude\<close> and \<open>treasure.longitude\<close> to
  \<open>calculateDistance\<close>. A treasure document has no such properties (the schema
  stores the position in \<open>location.coordinates\<close>), so for a stored treasure the
  distance is \<open>NaN\<close>, \<open>NaN > 100\<close> is false, and the tolerance check answers
  \<open>TooFar\<close> for no claimed location at all.
\<close>

lemma v1_never_too_far_without_latitude:
  assumes "find_active_treasure (req_treasureId req) (treasures s) = Some t"
    and "latitude t = None"
  shows "fst (discover_v1 chain clk req s) \<noteq> TooFar r"
  using assms unfolding discover_v1_def Let_def
  by (auto simp: distance_to_def too_far_def js_gt_def split: option.splits sum.splits)

lemma v2_never_too_far_without_latitude:
  assumes "find_active_treasure (req_treasureId req) (treasures s) = Some t"
    and "latitude t = None"
  shows "fst (discover_v2 pf nk chain clk req s) \<noteq> TooFar r"
  using assms unfolding discover_v2_def resolve_treasure_def Let_def
  by (auto simp: distance_to_def too_far_def js_gt_def split: option.splits sum.splits
        dest: chain_attempt_v2_Inl)

lemma v1_far_claim:
  "discover_v1 chain_broke example_clock (far_request ''u3'') (example_store None None)
   = (Discovered ((v1_offline_record ''u3'' None)\<lparr>proof_latitude := - 68.9649\<rparr>)
        beginner_profile (beginner_after 150),
      (example_store None None)
        \<lparr>discoveries := [(v1_offline_record ''u3'' None)\<lparr>proof_latitude := - 68.9649\<rparr>],
         profiles := [''u1'' \<mapsto> explorer_profile, ''u3'' \<mapsto> beginner_after 150]\<rparr>)"
  by (simp add: handler_defs example_defs)

lemma v2_far_claim:
  "discover_v2 example_parseFloat example_name_ok chain_broke example_clock
     (far_request ''u3'') (example_store None None)
   = (Discovered ((v2_offline_record ''u3'' False None)\<lparr>proof_latitude := - 68.9649\<rparr>)
        beginner_profile (beginner_after 150),
      (example_store None None)
        \<lparr>discoveries := [(v2_offline_record ''u3'' False None)\<lparr>proof_latitude := - 68.9649\<rparr>],
         profiles := [''u1'' \<mapsto> explorer_profile, ''u3'' \<mapsto> beginner_after 150]\<rparr>)"
  by (simp add: handler_defs example_defs)

text \<open>
  The check does reject when the treasure carries the two properties, which is the case
  only for a treasure that the second variant synthesizes from \<open>locationProof\<close>:
  the same player claims an id that is not stored from the same place.
\<close>

lemma v2_far_claim_on_synthesized:
  "discover_v2 example_parseFloat example_name_ok chain_broke example_clock
     (far_request_unknown ''u3'') (example_store None None)
   = (TooFar (math_round (Some (6371000 * (pi / 2)))), example_store None None)"
  using quarter_turn quarter_turn_too_far
  by (simp add: handler_defs example_defs)

text \<open>
  Claim C6 (the code differs). \<open>calculateDistance\<close> is 0 between a point and itself
  and symmetric (lemmas \<open>calculateDistance_self\<close>, \<open>calculateDistance_sym\<close>), and the
  comparison rejects exactly the distances above 100, so 100.0 passes and 100.01 does
  not (lemmas \<open>too_far_threshold\<close>, \<open>too_far_boundary\<close>). The proximity check of
  the discovery route does not apply this to the treasure's position: player \<open>u3\<close>
  claims the stored treasure \<open>hanoi_old_quarter_001\<close> from a point whose distance
  to the stored coordinates is \<open>R * pi / 2\<close>, far above 100, and both variants commit
  the claim, recording no distance. For no stored treasure does either variant answer
  \<open>TooFar\<close> (lemmas \<open>v1_never_too_far_without_latitude\<close>,
  \<open>v2_never_too_far_without_latitude\<close>); the second variant does answer
  \<open>TooFar\<close> from the same place for an id that is not stored, whose treasure
  it synthesizes with a latitude and a longitude.
\<close>

theorem far_claim_is_committed:
  "request_valid (far_request ''u3'') \<and>
   find_active_treasure (req_treasureId (far_request ''u3'')) (treasures (example_store None None))
     = Some (old_quarter None None) \<and>
   coordinates (old_quarter None None) = Some (105.8520, 21.0351) \<and>
   calculateDistance (req_latitude (far_request ''u3'')) (req_longitude (far_request ''u3''))
       21.0351 105.8520 = 6371000 * (pi / 2) \<and>
   too_far (Some (6371000 * (pi / 2))) \<and>
   discover_v1 chain_broke example_clock (far_request ''u3'') (example_store None None)
     = (Discovered ((v1_offline_record ''u3'' None)\<lparr>proof_latitude := - 68.9649\<rparr>)
          beginner_profile (beginner_after 150),
        (example_store None None)
          \<lparr>discoveries := [(v1_offline_record ''u3'' None)\<lparr>proof_latitude := - 68.9649\<rparr>],
           profiles := [''u1'' \<mapsto> explorer_profile, ''u3'' \<mapsto> beginner_after 150]\<rparr>) \<and>
   discover_v2 example_parseFloat example_name_ok chain_broke example_clock
       (far_request ''u3'') (example_store None None)
     = (Discovered ((v2_offline_record ''u3'' False None)\<lparr>proof_latitude := - 68.9649\<rparr>)
          beginner_profile (beginner_after 150),
        (example_store None None)
          \<lparr>discoveries := [(v2_offline_record ''u3'' False None)\<lparr>proof_latitude := - 68.9649\<rparr>],
           profiles := [''u1'' \<mapsto> explorer_profile, ''u3'' \<mapsto> beginner_after 150]\<rparr>) \<and>
   proof_distance ((v1_offline_record ''u3'' None)\<lparr>proof_latitude := - 68.9649\<rparr>) = None \<and>
   discover_v2 example_parseFloat example_name_ok chain_broke example_clock
       (far_request_unknown ''u3'') (example_store None None)
     = (TooFar (math_round (Some (6371000 * (pi / 2)))), example_store None None)"
  using v1_far_claim v2_far_claim v2_far_claim_on_synthesized quarter_turn quarter_turn_too_far
  by (simp add: request_valid_def far_request_def old_quarter_def example_store_def
        find_active_treasure_def v1_offline_record_def)

subsection \<open>Outcome of a successful discovery\<close>

lemma v1_discovered:
  "discover_v1 chain clk req s = (Discovered d p p', s') \<Longrightarrow>
   profiles s (req_userId req) = Some p \<and>
   (\<exists>t. find_active_treasure (req_treasureId req) (treasures s) = Some t \<and>
        p' = update_profile (t_hunt clk) (t_diff clk) (rewardPoints t) p)"
  unfolding discover_v1_def Let_def
  by (auto split: if_splits option.splits sum.splits)

lemma v2_discovered:
  "discover_v2 pf nk chain clk req s = (Discovered d p p', s') \<Longrightarrow>
   profiles s (req_userId req) = Some p \<and>
   p' = update_profile (t_hunt clk) (t_diff clk)
          (rewardPoints (fst (resolve_treasure pf req (treasures s)))) p"
  unfolding discover_v2_def Let_def
  by (auto split: if_splits option.splits sum.splits prod.splits dest: chain_attempt_v2_Inl)

lemma v2_writes_only_on_success:
  "snd (discover_v2 pf nk chain clk req s) = s \<or>
   (\<exists>d p p'. fst (discover_v2 pf nk chain clk req s) = Discovered d p p')"
  unfolding discover_v2_def Let_def
  by (auto split: option.splits sum.splits prod.splits)

lemma v2_chain_rejection_aborts:
  assumes "has_credentials u" and "users s (req_userId req) = Some u"
    and "discoverTreasure chain = Inl message"
    and "str_includes message ''E_TREASURE_ALREADY_FOUND'' \<or>
         str_includes message ''E_INVALID_LOCATION''"
  shows "snd (discover_v2 pf nk chain clk req s) = s"
  using assms unfolding discover_v2_def Let_def chain_attempt_v2_def
  by (auto split: option.splits sum.splits prod.splits)

lemma v2_without_profile_aborts:
  "profiles s (req_userId req) = None \<Longrightarrow> snd (discover_v2 pf nk chain clk req s) = s"
  unfolding discover_v2_def Let_def
  by (auto split: option.splits sum.splits prod.splits)

lemma update_profile_total:
  "totalTreasuresFound (update_profile th td r p) = totalTreasuresFound p + 1"
  by (simp add: update_profile_def updateHunterRank_def Let_def)

lemma rank_updateHunterRank:
  "rank (updateHunterRank p) =
     (if totalTreasuresFound p \<ge> 50 then Master
      else if totalTreasuresFound p \<ge> 20 then Hunter
      else if totalTreasuresFound p \<ge> 5 then Explorer else Beginner)"
  by (simp add: updateHunterRank_def Let_def)

lemma rank_update_profile:
  "rank (update_profile th td r p) =
     (if totalTreasuresFound p + 1 \<ge> 50 then Master
      else if totalTreasuresFound p + 1 \<ge> 20 then Hunter
      else if totalTreasuresFound p + 1 \<ge> 5 then Explorer else Beginner)"
  by (simp add: update_profile_def updateHunterRank_def Let_def)

lemma streak_update_profile:
  "th \<le> td \<Longrightarrow> td \<le> th + 86400000 \<Longrightarrow>
   currentStreak (update_profile th td r p) = currentStreak p + 1"
  by (simp add: update_profile_def Let_def updateHunterRank_def getTime_or_0_def)

lemma threshold_of_rank:
  "getTreasuresNeededForRank (getRankNumber r) =
     (case r of Beginner \<Rightarrow> 0 | Explorer \<Rightarrow> 5 | Hunter \<Rightarrow> 20 | Master \<Rightarrow> 50)"
  by (cases r) (simp_all add: getTreasuresNeededForRank_def)

lemma v1_example_offline:
  "discover_v1 chain_already_found example_clock (example_request ''u1'') (example_store None None)
   = (Discovered (v1_offline_record ''u1'' None) explorer_profile explorer_after,
      (example_store None None)
        \<lparr>discoveries := [v1_offline_record ''u1'' None],
         profiles := [''u1'' \<mapsto> explorer_after, ''u3'' \<mapsto> beginner_profile]\<rparr>)"
  by (simp add: handler_defs example_defs fun_upd_twist)

lemma v2_example_offline:
  "discover_v2 example_parseFloat example_name_ok chain_broke example_clock
     (example_request ''u3'') (example_store None None)
   = (Discovered (v2_offline_record ''u3'' False None) beginner_profile (beginner_after 150),
      (example_store None None)
        \<lparr>discoveries := [v2_offline_record ''u3'' False None],
         profiles := [''u1'' \<mapsto> explorer_profile, ''u3'' \<mapsto> beginner_after 150]\<rparr>)"
  by (simp add: handler_defs example_defs)

text \<open>
  Claim C7. \<open>updateHunterRank\<close> changes the rank only, and sets it to master exactly
  for 50 or more treasures found, hunter for 20 to 49, explorer for 5 to 19, beginner
  below 5; that rank is the highest one whose threshold (0, 5, 20, 50) is at most the
  number found. After a successful discovery of either variant the number found is one
  more than before and the rank is the one \<open>updateHunterRank\<close> computes from it. The
  result is a function of the profile alone.
\<close>

theorem rank_is_maximal_threshold:
  "(rank (updateHunterRank p) = Master \<longleftrightarrow> 50 \<le> totalTreasuresFound p) \<and>
   (rank (updateHunterRank p) = Hunter \<longleftrightarrow> 20 \<le> totalTreasuresFound p \<and> totalTreasuresFound p < 50) \<and>
   (rank (updateHunterRank p) = Explorer \<longleftrightarrow> 5 \<le> totalTreasuresFound p \<and> totalTreasuresFound p < 20) \<and>
   (rank (updateHunterRank p) = Beginner \<longleftrightarrow> totalTreasuresFound p < 5) \<and>
   getTreasuresNeededForRank (getRankNumber (rank (updateHunterRank p))) \<le> totalTreasuresFound p \<and>
   (getTreasuresNeededForRank (getRankNumber r') \<le> totalTreasuresFound p \<longrightarrow>
      getRankNumber r' \<le> getRankNumber (rank (updateHunterRank p))) \<and>
   updateHunterRank p = p\<lparr>rank := rank (updateHunterRank p)\<rparr> \<and>
   (discover_v1 chain clk req s = (Discovered d q q', s') \<longrightarrow>
      totalTreasuresFound q' = totalTreasuresFound q + 1 \<and> rank q' = rank (updateHunterRank q')) \<and>
   (discover_v2 pf nk chain2 clk2 req2 s2 = (Discovered d2 q2 q2', s2') \<longrightarrow>
      totalTreasuresFound q2' = totalTreasuresFound q2 + 1 \<and> rank q2' = rank (updateHunterRank q2'))"
proof -
  have a: "(rank (updateHunterRank p) = Master \<longleftrightarrow> 50 \<le> totalTreasuresFound p) \<and>
     (rank (updateHunterRank p) = Hunter \<longleftrightarrow> 20 \<le> totalTreasuresFound p \<and> totalTreasuresFound p < 50) \<and>
     (rank (updateHunterRank p) = Explorer \<longleftrightarrow> 5 \<le> totalTreasuresFound p \<and> totalTreasuresFound p < 20) \<and>
     (rank (updateHunterRank p) = Beginner \<longleftrightarrow> totalTreasuresFound p < 5)"
    by (simp add: rank_updateHunterRank)
  have b: "getTreasuresNeededForRank (getRankNumber (rank (updateHunterRank p))) \<le> totalTreasuresFound p"
    by (simp add: rank_updateHunterRank threshold_of_rank)
  have c: "getRankNumber r' \<le> getRankNumber (rank (updateHunterRank p))"
    if "getTreasuresNeededForRank (getRankNumber r') \<le> totalTreasuresFound p"
    using that
    by (cases r') (simp_all add: rank_updateHunterRank getTreasuresNeededForRank_def)
  have d: "updateHunterRank p = p\<lparr>rank := rank (updateHunterRank p)\<rparr>"
    by (simp add: updateHunterRank_def Let_def)
  have e: "totalTreasuresFound q' = totalTreasuresFound q + 1 \<and> rank q' = rank (updateHunterRank q')"
    if "discover_v1 chain clk req s = (Discovered d q q', s')"
    using v1_discovered [OF that]
    by (auto simp: update_profile_total rank_update_profile rank_updateHunterRank)
  have f: "totalTreasuresFound q2' = totalTreasuresFound q2 + 1 \<and> rank q2' = rank (updateHunterRank q2')"
    if "discover_v2 pf nk chain2 clk2 req2 s2 = (Discovered d2 q2 q2', s2')"
    using v2_discovered [OF that]
    by (auto simp: update_profile_total rank_update_profile rank_updateHunterRank)
  from a b c d e f show ?thesis by blast
qed

theorem rank_is_maximal_threshold_witness:
  "getTreasuresNeededForRank (getRankNumber Explorer) \<le> totalTreasuresFound explorer_profile \<and>
   rank (updateHunterRank explorer_profile) = Explorer \<and>
   discover_v1 chain_already_found example_clock (example_request ''u1'') (example_store None None)
     = (Discovered (v1_offline_record ''u1'' None) explorer_profile explorer_after,
        (example_store None None)
          \<lparr>discoveries := [v1_offline_record ''u1'' None],
           profiles := [''u1'' \<mapsto> explorer_after, ''u3'' \<mapsto> beginner_profile]\<rparr>) \<and>
   totalTreasuresFound explorer_after = totalTreasuresFound explorer_profile + 1 \<and>
   rank explorer_after = rank (updateHunterRank explorer_after) \<and>
   discover_v2 example_parseFloat example_name_ok chain_broke example_clock
       (example_request ''u3'') (example_store None None)
     = (Discovered (v2_offline_record ''u3'' False None) beginner_profile (beginner_after 150),
        (example_store None None)
          \<lparr>discoveries := [v2_offline_record ''u3'' False None],
           profiles := [''u1'' \<mapsto> explorer_profile, ''u3'' \<mapsto> beginner_after 150]\<rparr>) \<and>
   totalTreasuresFound (beginner_after 150) = totalTreasuresFound beginner_profile + 1 \<and>
   rank (beginner_after 150) = rank (updateHunterRank (beginner_after 150))"
  using rank_is_maximal_threshold [of explorer_profile Explorer
      chain_already_found example_clock "example_request ''u1''" "example_store None None"
      "v1_offline_record ''u1'' None" explorer_profile explorer_after
      "(example_store None None)
          \<lparr>discoveries := [v1_offline_record ''u1'' None],
           profiles := [''u1'' \<mapsto> explorer_after, ''u3'' \<mapsto> beginner_profile]\<rparr>"
      example_parseFloat example_name_ok chain_broke example_clock
      "example_request ''u3''" "example_store None None"
      "v2_offline_record ''u3'' False None" beginner_profile "beginner_after 150"
      "(example_store None None)
          \<lparr>discoveries := [v2_offline_record ''u3'' False None],
           profiles := [''u1'' \<mapsto> explorer_profile, ''u3'' \<mapsto> beginner_after 150]\<rparr>"]
    v1_example_offline v2_example_offline
  by (simp add: getTreasuresNeededForRank_def explorer_profile_def)

subsection \<open>Runs of the two variants on the example store\<close>

lemma v1_example_offline_some:
  "discover_v1 chain_already_found example_clock (example_request ''u1'')
     (example_store (Some 21.0351) (Some 105.8520))
   = (Discovered (v1_offline_record ''u1'' (Some 0)) explorer_profile explorer_after,
      (example_store (Some 21.0351) (Some 105.8520))
        \<lparr>discoveries := [v1_offline_record ''u1'' (Some 0)],
         profiles := [''u1'' \<mapsto> explorer_after, ''u3'' \<mapsto> beginner_profile]\<rparr>)"
  by (simp add: handler_defs example_defs fun_upd_twist)

lemma v2_example_u1:
  "discover_v2 example_parseFloat example_name_ok chain_unconfigured example_clock
     (example_request ''u1'') (example_store None None)
   = (Discovered (v2_offline_record ''u1'' False None) explorer_profile explorer_after,
      (example_store None None)
        \<lparr>discoveries := [v2_offline_record ''u1'' False None],
         profiles := [''u1'' \<mapsto> explorer_after, ''u3'' \<mapsto> beginner_profile]\<rparr>)"
  by (simp add: handler_defs example_defs fun_upd_twist)

lemma v2_example_u1_some:
  "discover_v2 example_parseFloat example_name_ok chain_unconfigured example_clock
     (example_request ''u1'') (example_store (Some 21.0351) (Some 105.8520))
   = (Discovered (v2_offline_record ''u1'' False (Some 0)) explorer_profile explorer_after,
      (example_store (Some 21.0351) (Some 105.8520))
        \<lparr>discoveries := [v2_offline_record ''u1'' False (Some 0)],
         profiles := [''u1'' \<mapsto> explorer_after, ''u3'' \<mapsto> beginner_profile]\<rparr>)"
  by (simp add: handler_defs example_defs fun_upd_twist)

text \<open>
  Claim C2 (the code differs). The profile of the run below was last used 48 hours and
  1 ms before the update and has a streak of 5: both variants answer with a streak of
  6, where the 24-hour rule asks for 1. \<open>lastHuntTimestamp\<close> is overwritten with the
  current time before \<open>timeDiff\<close> is computed from it, so \<open>timeDiff\<close> is the time
  between two adjacent statements (lemma \<open>streak_update_profile\<close>: whenever that is at
  most 24 hours the streak is incremented, whatever the previous timestamp was).
\<close>

theorem streak_not_reset_after_two_days:
  "lastHuntTimestamp explorer_profile = Some 1699827200000 \<and>
   t_hunt example_clock - 1699827200000 = 2 * 86400000 + 1 \<and>
   currentStreak explorer_profile = 5 \<and>
   currentStreak (update_profile (t_hunt example_clock) (t_diff example_clock) 150 explorer_profile) = 6 \<and>
   fst (discover_v1 chain_already_found example_clock (example_request ''u1'') (example_store None None))
     = Discovered (v1_offline_record ''u1'' None) explorer_profile explorer_after \<and>
   fst (discover_v1 chain_already_found example_clock (example_request ''u1'')
          (example_store (Some 21.0351) (Some 105.8520)))
     = Discovered (v1_offline_record ''u1'' (Some 0)) explorer_profile explorer_after \<and>
   fst (discover_v2 example_parseFloat example_name_ok chain_unconfigured example_clock
          (example_request ''u1'') (example_store None None))
     = Discovered (v2_offline_record ''u1'' False None) explorer_profile explorer_after \<and>
   fst (discover_v2 example_parseFloat example_name_ok chain_unconfigured example_clock
          (example_request ''u1'') (example_store (Some 21.0351) (Some 105.8520)))
     = Discovered (v2_offline_record ''u1'' False (Some 0)) explorer_profile explorer_after \<and>
   currentStreak explorer_after = 6"
  using v1_example_offline v1_example_offline_some v2_example_u1 v2_example_u1_some
  by (simp add: explorer_profile_def explorer_after_def example_clock_def update_profile_def
        updateHunterRank_def getTime_or_0_def Let_def)

lemma discoverTreasure_already_found:
  "discoverTreasure chain_already_found = Inl ''Transaction failed: MoveAbort: E_TREASURE_ALREADY_FOUND''"
  by (simp add: discoverTreasure_def chain_already_found_def)

lemma v2_example_already_found:
  "discover_v2 example_parseFloat example_name_ok chain_already_found example_clock
     (example_request ''u1'') (example_store None None)
   = (BlockchainAlreadyFound, example_store None None)"
  by (simp add: handler_defs example_defs)

lemma v2_example_already_found_some:
  "discover_v2 example_parseFloat example_name_ok chain_already_found example_clock
     (example_request ''u1'') (example_store (Some 21.0351) (Some 105.8520))
   = (BlockchainAlreadyFound, example_store (Some 21.0351) (Some 105.8520))"
  by (simp add: handler_defs example_defs)

text \<open>
  Claim C4 (the code differs in the first variant). The chain call fails with
  \<open>E_TREASURE_ALREADY_FOUND\<close> for a player with credentials: the first variant drops
  the error in its inner \<open>catch\<close>, writes an offline discovery and progresses the
  profile; the second variant answers with the rejection and writes nothing.
\<close>

theorem v1_commits_after_chain_rejection:
  "has_credentials chain_user \<and>
   discoverTreasure chain_already_found
     = Inl ''Transaction failed: MoveAbort: E_TREASURE_ALREADY_FOUND'' \<and>
   discover_v1 chain_already_found example_clock (example_request ''u1'') (example_store None None)
     = (Discovered (v1_offline_record ''u1'' None) explorer_profile explorer_after,
        (example_store None None)
          \<lparr>discoveries := [v1_offline_record ''u1'' None],
           profiles := [''u1'' \<mapsto> explorer_after, ''u3'' \<mapsto> beginner_profile]\<rparr>) \<and>
   discover_v1 chain_already_found example_clock (example_request ''u1'')
       (example_store (Some 21.0351) (Some 105.8520))
     = (Discovered (v1_offline_record ''u1'' (Some 0)) explorer_profile explorer_after,
        (example_store (Some 21.0351) (Some 105.8520))
          \<lparr>discoveries := [v1_offline_record ''u1'' (Some 0)],
           profiles := [''u1'' \<mapsto> explorer_after, ''u3'' \<mapsto> beginner_profile]\<rparr>) \<and>
   discover_v2 example_parseFloat example_name_ok chain_already_found example_clock
       (example_request ''u1'') (example_store None None)
     = (BlockchainAlreadyFound, example_store None None)"
  using v1_example_offline v1_example_offline_some discoverTreasure_already_found
    v2_example_already_found
  by (simp add: has_credentials_def truthy_def chain_user_def)

lemma v1_example_no_profile:
  "discover_v1 chain_broke example_clock (example_request ''u2'') (example_store None None)
   = (ServerError, (example_store None None)\<lparr>discoveries := [v1_offline_record ''u2'' None]\<rparr>)"
  by (simp add: handler_defs example_defs)

lemma v1_example_no_profile_some:
  "discover_v1 chain_broke example_clock (example_request ''u2'')
     (example_store (Some 21.0351) (Some 105.8520))
   = (ServerError,
      (example_store (Some 21.0351) (Some 105.8520))
        \<lparr>discoveries := [v1_offline_record ''u2'' (Some 0)]\<rparr>)"
  by (simp add: handler_defs example_defs)

lemma v2_example_no_profile:
  "discover_v2 example_parseFloat example_name_ok chain_broke example_clock
     (example_request ''u2'') (example_store None None)
   = (HunterProfileNotFound, example_store None None)"
  by (simp add: handler_defs example_defs)

text \<open>
  Claim C5 (the code differs in the first variant). For a player with a user record and
  no hunter profile the first variant takes the rank of a beginner, saves the discovery
  and only then fails on \<open>hunterProfile.rank\<close>: the answer is the 500 and the
  discovery stays written. The second variant answers \<open>HunterProfileNotFound\<close> and
  writes nothing (in general, lemma \<open>v2_without_profile_aborts\<close>).
\<close>

theorem v1_writes_discovery_without_profile:
  "profiles (example_store None None) ''u2'' = None \<and>
   users (example_store None None) ''u2'' = Some plain_user \<and>
   discover_v1 chain_broke example_clock (example_request ''u2'') (example_store None None)
     = (ServerError,
        (example_store None None)\<lparr>discoveries := [v1_offline_record ''u2'' None]\<rparr>) \<and>
   discover_v1 chain_broke example_clock (example_request ''u2'')
       (example_store (Some 21.0351) (Some 105.8520))
     = (ServerError,
        (example_store (Some 21.0351) (Some 105.8520))
          \<lparr>discoveries := [v1_offline_record ''u2'' (Some 0)]\<rparr>) \<and>
   discover_v2 example_parseFloat example_name_ok chain_broke example_clock
       (example_request ''u2'') (example_store None None)
     = (HunterProfileNotFound, example_store None None)"
  using v1_example_no_profile v1_example_no_profile_some v2_example_no_profile
  by (simp add: example_store_def)

subsection \<open>The chain call without funds\<close>

lemma discoverTreasure_insufficient:
  "keypair_error chain = None \<Longrightarrow> balance chain < 50000000 \<Longrightarrow>
   discoverTreasure chain = Inl ''Insufficient SUI balance for transaction. Need at least 0.05 SUI for gas.''"
  by (simp add: discoverTreasure_def)

lemma chain_attempt_v2_insufficient:
  "has_credentials u \<Longrightarrow> keypair_error chain = None \<Longrightarrow> balance chain < 50000000 \<Longrightarrow>
   chain_attempt_v2 u chain = Inl InsufficientGas"
  by (simp add: chain_attempt_v2_def discoverTreasure_insufficient)

lemma list_ex_key_clash:
  "list_ex (key_clash d) ledger \<longleftrightarrow>
   (\<exists>e\<in>set ledger. d_treasureId e = d_treasureId d \<or> nftObjectId e = nftObjectId d \<or>
      transactionDigest e = transactionDigest d)"
  by (simp add: list_ex_iff key_clash_def)

lemma find_discovery_None:
  "find_discovery tid ledger = None \<longleftrightarrow> (\<forall>e\<in>set ledger. d_treasureId e \<noteq> tid)"
  by (auto simp: find_discovery_def find_None_iff)

text \<open>
  Claim C3, as the code has it. For a player with a profile and chain credentials whose
  wallet holds less than 0.05 SUI, and a claim that passed the existence, uniqueness,
  proximity and eligibility checks: the second variant answers \<open>InsufficientGas\<close>
  and writes nothing; the first variant commits, provided no stored discovery holds the
  digest \<open>offline_transaction\<close> or the same offline NFT id: the discovery carries the
  synthetic references and the offline flag, and the profile is progressed.
\<close>

theorem insufficient_funds_outcomes:
  assumes req: "request_valid req" "req_userId req \<noteq> []"
    and fresh: "find_discovery (req_treasureId req) (discoveries s) = None"
    and prof: "profiles s (req_userId req) = Some p"
    and usr: "users s (req_userId req) = Some u" "has_credentials u"
    and funds: "keypair_error chain = None" "balance chain < 50000000"
  shows
    "(resolve_treasure pf req (treasures s) = (ta, gen) \<and>
      \<not> too_far (distance_to (req_latitude req) (req_longitude req) (latitude ta) (longitude ta)) \<and>
      requiredRank ta \<le> getRankNumber (rank p)
      \<longrightarrow> discover_v2 pf nk chain clk req s = (InsufficientGas, s)) \<and>
     (find_active_treasure (req_treasureId req) (treasures s) = Some tb \<and>
      \<not> too_far (distance_to (req_latitude req) (req_longitude req) (latitude tb) (longitude tb)) \<and>
      requiredRank tb \<le> getRankNumber (rank p) \<and>
      (\<forall>e\<in>set (discoveries s).
          nftObjectId e \<noteq> ''offline_'' @ show_int (t_nft clk) \<and>
          transactionDigest e \<noteq> ''offline_transaction'')
      \<longrightarrow> discover_v1 chain clk req s =
            (Discovered
               \<lparr>d_userId = req_userId req, d_treasureId = req_treasureId req,
                nftObjectId = ''offline_'' @ show_int (t_nft clk),
                transactionDigest = ''offline_transaction'',
                proof_latitude = req_latitude req, proof_longitude = req_longitude req,
                proof_distance = math_round (distance_to (req_latitude req) (req_longitude req)
                                               (latitude tb) (longitude tb)),
                blockchainSuccess = None, offline = True, autoGeneratedTreasure = None,
                discoveredAt = t_discovered clk\<rparr>
               p (update_profile (t_hunt clk) (t_diff clk) (rewardPoints tb) p),
             s\<lparr>discoveries := discoveries s @
                  [\<lparr>d_userId = req_userId req, d_treasureId = req_treasureId req,
                    nftObjectId = ''offline_'' @ show_int (t_nft clk),
                    transactionDigest = ''offline_transaction'',
                    proof_latitude = req_latitude req, proof_longitude = req_longitude req,
                    proof_distance = math_round (distance_to (req_latitude req) (req_longitude req)
                                                   (latitude tb) (longitude tb)),
                    blockchainSuccess = None, offline = True, autoGeneratedTreasure = None,
                    discoveredAt = t_discovered clk\<rparr>],
               profiles := (profiles s)(req_userId req \<mapsto>
                  update_profile (t_hunt clk) (t_diff clk) (rewardPoints tb) p)\<rparr>) \<and>
          totalTreasuresFound (update_profile (t_hunt clk) (t_diff clk) (rewardPoints tb) p)
            = totalTreasuresFound p + 1 \<and>
          totalScore (update_profile (t_hunt clk) (t_diff clk) (rewardPoints tb) p)
            = totalScore p + rewardPoints tb)"
proof (intro conjI impI)
  assume a: "resolve_treasure pf req (treasures s) = (ta, gen) \<and>
      \<not> too_far (distance_to (req_latitude req) (req_longitude req) (latitude ta) (longitude ta)) \<and>
      requiredRank ta \<le> getRankNumber (rank p)"
  show "discover_v2 pf nk chain clk req s = (InsufficientGas, s)"
    using a req fresh prof usr chain_attempt_v2_insufficient [OF usr(2) funds]
    by (simp add: discover_v2_def Let_def)
next
  assume a: "find_active_treasure (req_treasureId req) (treasures s) = Some tb \<and>
      \<not> too_far (distance_to (req_latitude req) (req_longitude req) (latitude tb) (longitude tb)) \<and>
      requiredRank tb \<le> getRankNumber (rank p) \<and>
      (\<forall>e\<in>set (discoveries s).
          nftObjectId e \<noteq> ''offline_'' @ show_int (t_nft clk) \<and>
          transactionDigest e \<noteq> ''offline_transaction'')"
  have fresh': "\<forall>e\<in>set (discoveries s). d_treasureId e \<noteq> req_treasureId req"
    using fresh by (simp add: find_discovery_None)
  show "discover_v1 chain clk req s =
            (Discovered
               \<lparr>d_userId = req_userId req, d_treasureId = req_treasureId req,
                nftObjectId = ''offline_'' @ show_int (t_nft clk),
                transactionDigest = ''offline_transaction'',
                proof_latitude = req_latitude req, proof_longitude = req_longitude req,
                proof_distance = math_round (distance_to (req_latitude req) (req_longitude req)
                                               (latitude tb) (longitude tb)),
                blockchainSuccess = None, offline = True, autoGeneratedTreasure = None,
                discoveredAt = t_discovered clk\<rparr>
               p (update_profile (t_hunt clk) (t_diff clk) (rewardPoints tb) p),
             s\<lparr>discoveries := discoveries s @
                  [\<lparr>d_userId = req_userId req, d_treasureId = req_treasureId req,
                    nftObjectId = ''offline_'' @ show_int (t_nft clk),
                    transactionDigest = ''offline_transaction'',
                    proof_latitude = req_latitude req, proof_longitude = req_longitude req,
                    proof_distance = math_round (distance_to (req_latitude req) (req_longitude req)
                                                   (latitude tb) (longitude tb)),
                    blockchainSuccess = None, offline = True, autoGeneratedTreasure = None,
                    discoveredAt = t_discovered clk\<rparr>],
               profiles := (profiles s)(req_userId req \<mapsto>
                  update_profile (t_hunt clk) (t_diff clk) (rewardPoints tb) p)\<rparr>)"
    using a req fresh fresh' prof usr discoverTreasure_insufficient [OF funds]
    by (simp add: discover_v1_def Let_def or_else_def save_discovery_def discovery_valid_def
          nft_valid_def digest_valid_def list_ex_key_clash request_valid_def)
next
  show "totalTreasuresFound (update_profile (t_hunt clk) (t_diff clk) (rewardPoints tb) p)
            = totalTreasuresFound p + 1"
    by (simp add: update_profile_total)
next
  show "totalScore (update_profile (t_hunt clk) (t_diff clk) (rewardPoints tb) p)
            = totalScore p + rewardPoints tb"
    by (simp add: update_profile_def updateHunterRank_def Let_def)
qed


lemma v2_example_insufficient:
  "discover_v2 example_parseFloat example_name_ok chain_broke example_clock
     (example_request ''u1'') (example_store None None)
   = (InsufficientGas, example_store None None)"
  by (simp add: handler_defs example_defs)

lemma v2_example_insufficient_some:
  "discover_v2 example_parseFloat example_name_ok chain_broke example_clock
     (example_request ''u1'') (example_store (Some 21.0351) (Some 105.8520))
   = (InsufficientGas, example_store (Some 21.0351) (Some 105.8520))"
  by (simp add: handler_defs example_defs)

theorem insufficient_funds_outcomes_witness:
  "request_valid (example_request ''u1'') \<and> req_userId (example_request ''u1'') \<noteq> [] \<and>
   find_discovery (req_treasureId (example_request ''u1'')) (discoveries (example_store None None)) = None \<and>
   profiles (example_store None None) (req_userId (example_request ''u1'')) = Some explorer_profile \<and>
   users (example_store None None) (req_userId (example_request ''u1'')) = Some chain_user \<and>
   has_credentials chain_user \<and> keypair_error chain_broke = None \<and> balance chain_broke < 50000000 \<and>
   resolve_treasure example_parseFloat (example_request ''u1'') (treasures (example_store None None))
     = (old_quarter None None, False) \<and>
   find_active_treasure (req_treasureId (example_request ''u1'')) (treasures (example_store None None))
     = Some (old_quarter None None) \<and>
   \<not> too_far (distance_to 21.0351 105.8520 None None) \<and>
   requiredRank (old_quarter None None) \<le> getRankNumber (rank explorer_profile) \<and>
   discover_v2 example_parseFloat example_name_ok chain_broke example_clock
       (example_request ''u1'') (example_store None None)
     = (InsufficientGas, example_store None None) \<and>
   discover_v1 chain_broke example_clock (example_request ''u1'') (example_store None None)
     = (Discovered (v1_offline_record ''u1'' None) explorer_profile explorer_after,
        (example_store None None)
          \<lparr>discoveries := [v1_offline_record ''u1'' None],
           profiles := [''u1'' \<mapsto> explorer_after, ''u3'' \<mapsto> beginner_profile]\<rparr>)"
proof -
  have h1: "request_valid (example_request ''u1'')"
    by (simp add: request_valid_def example_request_def)
  have h2: "req_userId (example_request ''u1'') \<noteq> []"
    by (simp add: example_request_def)
  have h3: "find_discovery (req_treasureId (example_request ''u1''))
              (discoveries (example_store None None)) = None"
    by (simp add: find_discovery_def example_store_def)
  have h4: "profiles (example_store None None) (req_userId (example_request ''u1''))
              = Some explorer_profile"
    by (simp add: example_store_def example_request_def)
  have h5: "users (example_store None None) (req_userId (example_request ''u1'')) = Some chain_user"
    by (simp add: example_store_def example_request_def)
  have h6: "has_credentials chain_user"
    by (simp add: has_credentials_def truthy_def chain_user_def)
  have h7: "keypair_error chain_broke = None" "balance chain_broke < 50000000"
    by (simp_all add: chain_broke_def)
  note outcome = insufficient_funds_outcomes [OF h1 h2 h3 h4 h5 h6 h7,
      where pf = example_parseFloat and ta = "old_quarter None None" and gen = False
        and nk = example_name_ok and clk = example_clock and tb = "old_quarter None None"]
  show ?thesis
    using outcome h1 h2 h3 h4 h5 h6 h7
    by (simp add: example_defs resolve_treasure_def find_active_treasure_def distance_to_def
          too_far_def js_gt_def math_round_def show_int_def update_profile_def
          updateHunterRank_def getTime_or_0_def Let_def fun_upd_twist)
qed

text \<open>
  Claim C3 as stated fails in the second variant: the wallet of \<open>chain_broke\<close> is
  empty, the chain call throws the insufficient-balance error, and the claim, which
  commits when the chain fails for another reason, is answered \<open>InsufficientGas\<close>
  with the store unchanged.
\<close>

theorem insufficient_funds_aborts_second_variant:
  "has_credentials chain_user \<and> balance chain_broke < 50000000 \<and>
   discoverTreasure chain_broke
     = Inl ''Insufficient SUI balance for transaction. Need at least 0.05 SUI for gas.'' \<and>
   discover_v2 example_parseFloat example_name_ok chain_broke example_clock
       (example_request ''u1'') (example_store None None)
     = (InsufficientGas, example_store None None) \<and>
   discover_v2 example_parseFloat example_name_ok chain_broke example_clock
       (example_request ''u1'') (example_store (Some 21.0351) (Some 105.8520))
     = (InsufficientGas, example_store (Some 21.0351) (Some 105.8520)) \<and>
   fst (discover_v2 example_parseFloat example_name_ok chain_unconfigured example_clock
          (example_request ''u1'') (example_store None None))
     = Discovered (v2_offline_record ''u1'' False None) explorer_profile explorer_after"
  using v2_example_insufficient v2_example_insufficient_some v2_example_u1
  by (simp add: has_credentials_def truthy_def chain_user_def chain_broke_def discoverTreasure_def)

subsection \<open>Treasure resolution\<close>

lemma find_active_treasure_None:
  "find_active_treasure tid ts = None \<longleftrightarrow> (\<forall>t\<in>set ts. treasureId t = tid \<longrightarrow> \<not> isActive t)"
  by (auto simp: find_active_treasure_def find_None_iff)

lemma v2_not_TreasureNotFound:
  "fst (discover_v2 pf nk chain clk req s) \<noteq> TreasureNotFound"
  unfolding discover_v2_def Let_def
  by (auto split: if_splits option.splits sum.splits prod.splits dest: chain_attempt_v2_Inl)

lemma v2_discovered_generated:
  "discover_v2 pf nk chain clk req s = (Discovered d p p', s') \<Longrightarrow>
   autoGeneratedTreasure d = Some (snd (resolve_treasure pf req (treasures s)))"
  unfolding discover_v2_def Let_def
  by (auto split: if_splits option.splits sum.splits prod.splits dest: chain_attempt_v2_Inl)

text \<open>
  The design part of the resolution step, in the second variant: for an id that no
  stored treasure has, the claim continues with the treasure that
  \<open>parseBlockchainTreasure\<close> derives from the id and the \<open>locationProof\<close> string
  (rarity, required rank and reward from the table of known ids, else from the id
  patterns; latitude and longitude parsed from the first two comma-separated parts),
  and a commit records \<open>autoGeneratedTreasure\<close> and adds the synthesized reward. The
  first variant has no synthesis: it answers \<open>TreasureNotFound\<close> whenever no active
  treasure has the id.
\<close>

lemma v2_unknown_id_is_synthesized:
  assumes "\<forall>t\<in>set ts. treasureId t \<noteq> req_treasureId req"
  shows "resolve_treasure pf req ts =
     (parseBlockchainTreasure pf (req_treasureId req) (req_locationProof req), True)"
proof -
  from assms have "find_active_treasure (req_treasureId req) ts = None"
    by (simp add: find_active_treasure_None)
  then show ?thesis by (simp add: resolve_treasure_def)
qed

lemma parseBlockchainTreasure_fields:
  "treasureId (parseBlockchainTreasure pf tid coords) = tid \<and>
   isActive (parseBlockchainTreasure pf tid coords) \<and>
   (rarity (parseBlockchainTreasure pf tid coords),
    requiredRank (parseBlockchainTreasure pf tid coords),
    rewardPoints (parseBlockchainTreasure pf tid coords))
     = (case knownTreasures tid of Some known \<Rightarrow> known | None \<Rightarrow> id_defaults tid) \<and>
   latitude (parseBlockchainTreasure pf tid coords)
     = (case split_comma coords of [] \<Rightarrow> None | a # rest \<Rightarrow> pf a) \<and>
   longitude (parseBlockchainTreasure pf tid coords)
     = (case split_comma coords of [] \<Rightarrow> None | a # rest \<Rightarrow>
          (case rest of [] \<Rightarrow> None | b # others \<Rightarrow> pf b))"
  by (auto simp: parseBlockchainTreasure_def Let_def split: prod.splits option.splits list.splits)

lemma v2_synthesized_commit:
  assumes "find_active_treasure (req_treasureId req) (treasures s) = None"
    and "discover_v2 pf nk chain clk req s = (Discovered d p p', s')"
  shows "autoGeneratedTreasure d = Some True \<and>
         p' = update_profile (t_hunt clk) (t_diff clk)
                (rewardPoints (parseBlockchainTreasure pf (req_treasureId req)
                   (req_locationProof req))) p"
  using v2_discovered [OF assms(2)] v2_discovered_generated [OF assms(2)] assms(1)
  by (simp add: resolve_treasure_def)

lemma v1_without_active_treasure:
  "request_valid req \<Longrightarrow> find_active_treasure (req_treasureId req) (treasures s) = None \<Longrightarrow>
   discover_v1 chain clk req s = (TreasureNotFound, s)"
  by (simp add: discover_v1_def)

lemma v2_example_closed:
  "discover_v2 example_parseFloat example_name_ok chain_broke example_clock
     (example_request ''u3'') (closed_store None None)
   = (Discovered (v2_offline_record ''u3'' True (Some 0)) beginner_profile (beginner_after 100),
      (closed_store None None)
        \<lparr>discoveries := [v2_offline_record ''u3'' True (Some 0)],
         profiles := [''u1'' \<mapsto> explorer_profile, ''u3'' \<mapsto> beginner_after 100]\<rparr>)"
  by (simp add: handler_defs example_defs)

lemma v1_example_closed:
  "discover_v1 chain_broke example_clock (example_request ''u3'') (closed_store None None)
   = (TreasureNotFound, closed_store None None)"
  by (simp add: handler_defs example_defs)

text \<open>
  Claim C9 (the code differs in the second variant). The treasure
  \<open>hanoi_old_quarter_001\<close> is stored and inactive, and player \<open>u3\<close> claims it at
  its location. The lookup of the second variant asks for an active treasure, finds
  none, and takes the inactive treasure for a missing one: the claim is not answered
  \<open>TreasureNotFound\<close> but committed for a synthesized treasure, the discovery is
  marked \<open>autoGeneratedTreasure\<close>, the player is paid the synthesized reward of 100
  instead of the stored 150, and the treasure collection stays as it was (the save of
  the synthesized treasure fails on the stored id and the failure is dropped). The
  first variant answers \<open>TreasureNotFound\<close> to the same request and writes nothing.
\<close>

theorem inactive_treasure_is_synthesized:
  "request_valid (example_request ''u3'') \<and>
   treasures (closed_store None None) = [(old_quarter None None)\<lparr>isActive := False\<rparr>] \<and>
   treasureId (old_quarter None None) = req_treasureId (example_request ''u3'') \<and>
   rewardPoints (old_quarter None None) = 150 \<and>
   discover_v2 example_parseFloat example_name_ok chain_broke example_clock
       (example_request ''u3'') (closed_store None None)
     = (Discovered (v2_offline_record ''u3'' True (Some 0)) beginner_profile (beginner_after 100),
        (closed_store None None)
          \<lparr>discoveries := [v2_offline_record ''u3'' True (Some 0)],
           profiles := [''u1'' \<mapsto> explorer_profile, ''u3'' \<mapsto> beginner_after 100]\<rparr>) \<and>
   fst (discover_v2 example_parseFloat example_name_ok chain_broke example_clock
       (example_request ''u3'') (closed_store None None)) \<noteq> TreasureNotFound \<and>
   autoGeneratedTreasure (v2_offline_record ''u3'' True (Some 0)) = Some True \<and>
   totalScore (beginner_after 100) = 100 \<and>
   treasures (snd (discover_v2 example_parseFloat example_name_ok chain_broke example_clock
       (example_request ''u3'') (closed_store None None)))
     = [(old_quarter None None)\<lparr>isActive := False\<rparr>] \<and>
   discover_v1 chain_broke example_clock (example_request ''u3'') (closed_store None None)
     = (TreasureNotFound, closed_store None None)"
  using v2_example_closed v1_example_closed
  by (simp add: closed_store_def example_store_def old_quarter_def example_request_def
        request_valid_def v2_offline_record_def beginner_after_def)

subsection \<open>The discovery ledger\<close>

lemma save_discovery_Inr:
  "save_discovery d ledger = Inr ledger' \<longleftrightarrow>
   (ledger' = ledger @ [d] \<and> discovery_valid d \<and>
    (\<forall>e\<in>set ledger. d_treasureId e \<noteq> d_treasureId d \<and> nftObjectId e \<noteq> nftObjectId d \<and>
       transactionDigest e \<noteq> transactionDigest d))"
  by (auto simp: save_discovery_def list_ex_iff key_clash_def)

lemma save_discovery_unique:
  "unique_indexes ledger \<Longrightarrow> save_discovery d ledger = Inr ledger' \<Longrightarrow> unique_indexes ledger'"
  by (auto simp: save_discovery_Inr unique_indexes_def)

lemma save_discovery_at_most_one:
  "at_most_one_per_treasure ledger \<Longrightarrow> save_discovery d ledger = Inr ledger' \<Longrightarrow>
   at_most_one_per_treasure ledger'"
  by (auto simp: save_discovery_Inr at_most_one_per_treasure_def)

lemma save_discovery_duplicate:
  "e \<in> set ledger \<Longrightarrow> d_treasureId e = d_treasureId d \<Longrightarrow>
   save_discovery d ledger = (if discovery_valid d then Inl DuplicateKey else Inl ValidationError)"
  by (auto simp: save_discovery_def list_ex_iff key_clash_def)

lemma v1_ledger:
  "discoveries (snd (discover_v1 chain clk req s)) = discoveries s \<or>
   (\<exists>d. save_discovery d (discoveries s) = Inr (discoveries (snd (discover_v1 chain clk req s))))"
  unfolding discover_v1_def Let_def
  by (auto split: option.splits sum.splits)

lemma v2_ledger:
  "discoveries (snd (discover_v2 pf nk chain clk req s)) = discoveries s \<or>
   (\<exists>d. save_discovery d (discoveries s) = Inr (discoveries (snd (discover_v2 pf nk chain clk req s))))"
  unfolding discover_v2_def Let_def
  by (auto split: option.splits sum.splits prod.splits)

lemma reachable_unique_indexes: "reachable s \<Longrightarrow> unique_indexes (discoveries s)"
proof (induction rule: reachable.induct)
  case (seeded s)
  then show ?case by (simp add: unique_indexes_def)
next
  case (by_v1 s chain clk req)
  then show ?case
    using v1_ledger [of chain clk req s] by (auto dest: save_discovery_unique)
next
  case (by_v2 s pf name_ok chain clk req)
  then show ?case
    using v2_ledger [of pf name_ok chain clk req s] by (auto dest: save_discovery_unique)
next
  case (by_other s s')
  then show ?case by simp
qed

lemma distinct_map_filter_le_1:
  "distinct (map f xs) \<Longrightarrow> length (filter (\<lambda>x. f x = k) xs) \<le> 1"
proof (induction xs)
  case Nil
  then show ?case by simp
next
  case (Cons x xs)
  show ?case
  proof (cases "f x = k")
    case True
    from Cons.prems have "f x \<notin> f ` set xs" by simp
    then have "\<forall>y\<in>set xs. f y \<noteq> f x" by (metis image_eqI)
    with True have "\<forall>y\<in>set xs. f y \<noteq> k" by simp
    then have "filter (\<lambda>x. f x = k) xs = []" by (simp add: filter_empty_conv)
    with True show ?thesis by simp
  next
    case False
    with Cons show ?thesis by simp
  qed
qed

lemma reachable_example:
  "reachable ((example_store None None)
      \<lparr>discoveries := [v1_offline_record ''u1'' None],
       profiles := [''u1'' \<mapsto> explorer_after, ''u3'' \<mapsto> beginner_profile]\<rparr>)"
proof -
  have "reachable (example_store None None)"
    by (rule reachable.seeded) (simp add: example_store_def)
  from reachable.by_v1 [OF this, of chain_already_found example_clock "example_request ''u1''"]
  show ?thesis by (simp add: v1_example_offline)
qed

text \<open>
  Claim C1. In every store reachable from an empty discovery collection by the two
  discover handlers and by operations that do not write discoveries, at most one
  discovery exists per treasure id, and both handlers preserve this. The insert itself
  enforces it, whatever was checked before: \<open>save_discovery\<close> keeps the property for
  every record it accepts, and rejects every record whose treasure id is already
  stored (with the duplicate-key error when the record passes the validators).
\<close>

theorem discovery_unique_per_treasure:
  "(reachable s \<longrightarrow> length (filter (\<lambda>d. d_treasureId d = tid) (discoveries s)) \<le> 1) \<and>
   (reachable s \<longrightarrow>
      at_most_one_per_treasure (discoveries (snd (discover_v1 chain clk req s))) \<and>
      at_most_one_per_treasure (discoveries (snd (discover_v2 pf nk chain clk req s)))) \<and>
   (at_most_one_per_treasure ledger \<and> save_discovery d ledger = Inr ledger' \<longrightarrow>
      at_most_one_per_treasure ledger') \<and>
   (e \<in> set ledger \<and> d_treasureId e = d_treasureId d \<longrightarrow>
      save_discovery d ledger = (if discovery_valid d then Inl DuplicateKey else Inl ValidationError))"
proof -
  have a: "length (filter (\<lambda>d. d_treasureId d = tid) (discoveries s)) \<le> 1" if "reachable s"
    using reachable_unique_indexes [OF that]
      distinct_map_filter_le_1 [of d_treasureId "discoveries s" tid]
    by (simp add: unique_indexes_def)
  have b: "at_most_one_per_treasure (discoveries (snd (discover_v1 chain clk req s)))" if "reachable s"
    using reachable_unique_indexes [OF reachable.by_v1 [OF that, of chain clk req]]
    by (simp add: unique_indexes_def at_most_one_per_treasure_def)
  have c: "at_most_one_per_treasure (discoveries (snd (discover_v2 pf nk chain clk req s)))" if "reachable s"
    using reachable_unique_indexes [OF reachable.by_v2 [OF that, of pf nk chain clk req]]
    by (simp add: unique_indexes_def at_most_one_per_treasure_def)
  from a b c save_discovery_at_most_one [of ledger d ledger'] save_discovery_duplicate [of e ledger d]
  show ?thesis by blast
qed

theorem discovery_unique_per_treasure_witness:
  "reachable ((example_store None None)
      \<lparr>discoveries := [v1_offline_record ''u1'' None],
       profiles := [''u1'' \<mapsto> explorer_after, ''u3'' \<mapsto> beginner_profile]\<rparr>) \<and>
   length (filter (\<lambda>d. d_treasureId d = ''hanoi_old_quarter_001'') [v1_offline_record ''u1'' None]) \<le> 1 \<and>
   at_most_one_per_treasure [west_lake_offline] \<and>
   save_discovery (v2_offline_record ''u3'' False None) [west_lake_offline]
     = Inr [west_lake_offline, v2_offline_record ''u3'' False None] \<and>
   at_most_one_per_treasure [west_lake_offline, v2_offline_record ''u3'' False None] \<and>
   west_lake_offline \<in> set [west_lake_offline] \<and>
   d_treasureId west_lake_offline = d_treasureId (west_lake_offline\<lparr>d_userId := ''u3''\<rparr>) \<and>
   save_discovery (west_lake_offline\<lparr>d_userId := ''u3''\<rparr>) [west_lake_offline] = Inl DuplicateKey"
proof -
  have sv: "save_discovery (v2_offline_record ''u3'' False None) [west_lake_offline]
     = Inr [west_lake_offline, v2_offline_record ''u3'' False None]"
    by (simp add: save_discovery_def discovery_valid_def nft_valid_def digest_valid_def
          key_clash_def v2_offline_record_def west_lake_offline_def)
  have one: "at_most_one_per_treasure [west_lake_offline]"
    by (simp add: at_most_one_per_treasure_def)
  have valid: "discovery_valid (west_lake_offline\<lparr>d_userId := ''u3''\<rparr>)"
    by (simp add: discovery_valid_def nft_valid_def digest_valid_def west_lake_offline_def)
  show ?thesis
    using discovery_unique_per_treasure [where s = "(example_store None None)
          \<lparr>discoveries := [v1_offline_record ''u1'' None],
           profiles := [''u1'' \<mapsto> explorer_after, ''u3'' \<mapsto> beginner_profile]\<rparr>"
        and tid = "''hanoi_old_quarter_001''" and ledger = "[west_lake_offline]"
        and d = "v2_offline_record ''u3'' False None"
        and ledger' = "[west_lake_offline, v2_offline_record ''u3'' False None]"]
      discovery_unique_per_treasure [where ledger = "[west_lake_offline]"
        and e = west_lake_offline and d = "west_lake_offline\<lparr>d_userId := ''u3''\<rparr>"]
      reachable_example sv one valid
    by simp
qed

subsection \<open>The constant offline digest of the first variant\<close>

lemma v1_offline_digest:
  "fst (discover_v1 chain clk req s) = Discovered d p p' \<Longrightarrow> offline d \<Longrightarrow>
   transactionDigest d = ''offline_transaction'' \<and>
   (\<forall>e\<in>set (discoveries s). transactionDigest e \<noteq> ''offline_transaction'')"
  unfolding discover_v1_def Let_def
  by (auto simp: save_discovery_Inr or_else_def split: option.splits sum.splits if_splits)

lemma v1_second_offline_fails:
  assumes "request_valid req"
    and "find_active_treasure (req_treasureId req) (treasures s) = Some t"
    and "find_discovery (req_treasureId req) (discoveries s) = None"
    and "\<not> too_far (distance_to (req_latitude req) (req_longitude req) (latitude t) (longitude t))"
    and "requiredRank t \<le> getRankNumber (case profiles s (req_userId req) of None \<Rightarrow> Beginner | Some p \<Rightarrow> rank p)"
    and "users s (req_userId req) = Some u"
    and "\<not> has_credentials u \<or> isl (discoverTreasure chain)"
    and "e \<in> set (discoveries s)" and "transactionDigest e = ''offline_transaction''"
  shows "discover_v1 chain clk req s = (ServerError, s)"
  using assms unfolding discover_v1_def Let_def
  by (auto simp: save_discovery_def list_ex_iff key_clash_def or_else_def split: sum.splits)


text \<open>
  Claim C10. Every discovery that the first variant commits with the offline flag
  carries the transaction digest \<open>offline_transaction\<close>, and the commit requires that
  no stored discovery has that digest. Once one is stored, an offline claim of the
  first variant that passes every check is answered with the 500 at the insert and
  leaves the store as it was, for any treasure and player. A reachable store holds
  at most one discovery with that digest.
\<close>

theorem offline_digest_admits_one_commit:
  "(fst (discover_v1 chain clk req s) = Discovered d p p' \<and> offline d \<longrightarrow>
      transactionDigest d = ''offline_transaction'' \<and>
      (\<forall>e\<in>set (discoveries s). transactionDigest e \<noteq> ''offline_transaction'')) \<and>
   (request_valid req \<and>
    find_active_treasure (req_treasureId req) (treasures s) = Some t \<and>
    find_discovery (req_treasureId req) (discoveries s) = None \<and>
    \<not> too_far (distance_to (req_latitude req) (req_longitude req) (latitude t) (longitude t)) \<and>
    requiredRank t \<le> getRankNumber (case profiles s (req_userId req) of None \<Rightarrow> Beginner
                                     | Some q \<Rightarrow> rank q) \<and>
    users s (req_userId req) = Some u \<and>
    (\<not> has_credentials u \<or> isl (discoverTreasure chain)) \<and>
    e \<in> set (discoveries s) \<and> transactionDigest e = ''offline_transaction''
    \<longrightarrow> discover_v1 chain clk req s = (ServerError, s)) \<and>
   (reachable s' \<longrightarrow>
      length (filter (\<lambda>d. transactionDigest d = ''offline_transaction'') (discoveries s')) \<le> 1)"
proof -
  have c: "length (filter (\<lambda>d. transactionDigest d = ''offline_transaction'') (discoveries s')) \<le> 1"
    if "reachable s'"
    using reachable_unique_indexes [OF that]
      distinct_map_filter_le_1 [of transactionDigest "discoveries s'" "''offline_transaction''"]
    by (simp add: unique_indexes_def)
  from c v1_offline_digest [of chain clk req s d p p']
    v1_second_offline_fails [of req s t u chain e clk]
  show ?thesis by blast
qed

theorem offline_digest_admits_one_commit_witness:
  "fst (discover_v1 chain_already_found example_clock (example_request ''u1'') (example_store None None))
     = Discovered (v1_offline_record ''u1'' None) explorer_profile explorer_after \<and>
   offline (v1_offline_record ''u1'' None) \<and>
   transactionDigest (v1_offline_record ''u1'' None) = ''offline_transaction'' \<and>
   request_valid (example_request ''u3'') \<and>
   find_active_treasure (req_treasureId (example_request ''u3'')) (treasures (store_after_offline None None))
     = Some (old_quarter None None) \<and>
   find_discovery (req_treasureId (example_request ''u3'')) (discoveries (store_after_offline None None))
     = None \<and>
   \<not> too_far (distance_to 21.0351 105.8520 None None) \<and>
   users (store_after_offline None None) ''u3'' = Some plain_user \<and>
   \<not> has_credentials plain_user \<and>
   west_lake_offline \<in> set (discoveries (store_after_offline None None)) \<and>
   transactionDigest west_lake_offline = ''offline_transaction'' \<and>
   discover_v1 chain_broke example_clock (example_request ''u3'') (store_after_offline None None)
     = (ServerError, store_after_offline None None) \<and>
   reachable ((example_store None None)
      \<lparr>discoveries := [v1_offline_record ''u1'' None],
       profiles := [''u1'' \<mapsto> explorer_after, ''u3'' \<mapsto> beginner_profile]\<rparr>) \<and>
   length (filter (\<lambda>d. transactionDigest d = ''offline_transaction'')
             [v1_offline_record ''u1'' None]) \<le> 1"
proof -
  have run: "fst (discover_v1 chain_already_found example_clock (example_request ''u1'')
                    (example_store None None))
     = Discovered (v1_offline_record ''u1'' None) explorer_profile explorer_after"
    by (simp add: v1_example_offline)
  have pre: "request_valid (example_request ''u3'')"
    "find_active_treasure (req_treasureId (example_request ''u3''))
       (treasures (store_after_offline None None)) = Some (old_quarter None None)"
    "find_discovery (req_treasureId (example_request ''u3''))
       (discoveries (store_after_offline None None)) = None"
    "\<not> too_far (distance_to 21.0351 105.8520 None None)"
    "users (store_after_offline None None) ''u3'' = Some plain_user"
    "\<not> has_credentials plain_user"
    "west_lake_offline \<in> set (discoveries (store_after_offline None None))"
    "transactionDigest west_lake_offline = ''offline_transaction''"
    "offline (v1_offline_record ''u1'' None)"
    by (simp_all add: example_defs request_valid_def find_active_treasure_def find_discovery_def
          distance_to_def too_far_def js_gt_def has_credentials_def truthy_def)
  show ?thesis
    using offline_digest_admits_one_commit [where chain = chain_already_found
        and clk = example_clock and req = "example_request ''u1''" and s = "example_store None None"
        and d = "v1_offline_record ''u1'' None" and p = explorer_profile and p' = explorer_after
        and s' = "(example_store None None)
          \<lparr>discoveries := [v1_offline_record ''u1'' None],
           profiles := [''u1'' \<mapsto> explorer_after, ''u3'' \<mapsto> beginner_profile]\<rparr>"]
      offline_digest_admits_one_commit [where chain = chain_broke and clk = example_clock
        and req = "example_request ''u3''" and s = "store_after_offline None None"
        and t = "old_quarter None None" and u = plain_user and e = west_lake_offline]
      run pre reachable_example
    by (simp add: example_defs)
qed

subsection \<open>The nearby query\<close>

lemma set_js_insort [simp]: "set (js_insort a xs) = insert a (set xs)"
  by (induction xs) auto

lemma length_js_insort [simp]: "length (js_insort a xs) = Suc (length xs)"
  by (induction xs) auto

lemma set_js_sort [simp]: "set (js_sort xs) = set xs"
  unfolding js_sort_def by (induction xs) auto

lemma length_js_sort [simp]: "length (js_sort xs) = length xs"
  unfolding js_sort_def by (induction xs) auto

lemma js_sort_all_NaN:
  "\<forall>x\<in>set xs. item_distance x = None \<Longrightarrow> js_sort xs = xs"
proof (induction xs)
  case Nil
  then show ?case by (simp add: js_sort_def)
next
  case (Cons a xs)
  then have "js_sort xs = xs" by simp
  then have "js_sort (a # xs) = js_insort a xs" by (simp add: js_sort_def)
  moreover have "js_insort a xs = a # xs"
    using Cons.prems by (cases xs) (simp_all add: distance_le_def)
  ultimately show ?case by simp
qed

lemma js_insort_sorted:
  assumes "item_distance a \<noteq> None" "\<forall>x\<in>set xs. item_distance x \<noteq> None" "sorted_wrt num_le xs"
  shows "sorted_wrt num_le (js_insort a xs)"
  using assms
proof (induction xs)
  case Nil
  then show ?case by simp
next
  case (Cons b bs)
  show ?case
  proof (cases "distance_le a b")
    case True
    with Cons.prems have ab: "num_le a b"
      by (auto simp: distance_le_def num_le_def)
    have "\<forall>c\<in>set bs. num_le a c"
    proof
      fix c assume "c \<in> set bs"
      with Cons.prems have "num_le b c" by simp
      with ab show "num_le a c" by (auto simp: num_le_def)
    qed
    with True ab Cons.prems show ?thesis by simp
  next
    case False
    with Cons.prems have ba: "num_le b a"
      by (auto simp: distance_le_def num_le_def)
    from Cons have "sorted_wrt num_le (js_insort a bs)" by simp
    with False ba Cons.prems show ?thesis by auto
  qed
qed

lemma js_sort_sorted:
  "\<forall>x\<in>set xs. item_distance x \<noteq> None \<Longrightarrow> sorted_wrt num_le (js_sort xs)"
proof (induction xs)
  case Nil
  then show ?case by (simp add: js_sort_def)
next
  case (Cons a xs)
  then have "sorted_wrt num_le (js_sort xs)" by simp
  moreover have "js_sort (a # xs) = js_insort a (js_sort xs)" by (simp add: js_sort_def)
  ultimately show ?case using Cons.prems by (simp add: js_insort_sorted)
qed

lemma sorted_of_num_le:
  "sorted_wrt num_le xs \<Longrightarrow> map item_distance xs = map Some ds \<Longrightarrow> sorted ds"
proof (induction xs arbitrary: ds)
  case Nil
  then show ?case by simp
next
  case (Cons a xs)
  then obtain d ds' where ds: "ds = d # ds'" "item_distance a = Some d"
    "map item_distance xs = map Some ds'"
    by (cases ds) auto
  have "\<forall>y\<in>set ds'. d \<le> y"
  proof
    fix y assume "y \<in> set ds'"
    then have "Some y \<in> set (map item_distance xs)" using ds(3) by simp
    then obtain b where "b \<in> set xs" "item_distance b = Some y" by auto
    with Cons.prems(1) ds(2) show "d \<le> y" by (auto simp: num_le_def)
  qed
  moreover have "sorted ds'" using Cons.IH [of ds'] Cons.prems(1) ds(3) by simp
  ultimately show ?case using ds(1) by simp
qed

lemma js_sort_ascending:
  assumes "map item_distance (js_sort xs) = map Some ds"
  shows "sorted ds"
proof -
  have "\<forall>x\<in>set (js_sort xs). item_distance x \<noteq> None"
  proof
    fix x assume "x \<in> set (js_sort xs)"
    then have "item_distance x \<in> set (map item_distance (js_sort xs))" by simp
    with assms show "item_distance x \<noteq> None" by auto
  qed
  then have "\<forall>x\<in>set xs. item_distance x \<noteq> None" by simp
  from js_sort_sorted [OF this] assms show ?thesis by (rule sorted_of_num_le)
qed

lemma undiscovered_iff:
  "tid \<notin> d_treasureId ` set ds \<longleftrightarrow> find_discovery tid ds = None"
  by (auto simp: find_discovery_def find_None_iff image_iff)

lemma length_near_query: "length (near_query geo_dist q r ts) \<le> 20"
  by (simp add: near_query_def)

lemma set_near_query_subset:
  "t \<in> set (near_query geo_dist q r ts) \<Longrightarrow>
   t \<in> set ts \<and> isActive t \<and> within_distance geo_dist q r t"
  unfolding near_query_def by (auto dest!: in_set_takeD)

lemma sorted_near_query: "sorted (map (geo_key geo_dist q) (near_query geo_dist q r ts))"
  unfolding near_query_def by (simp add: take_map [symmetric])

lemma near_query_all:
  assumes "length (filter (\<lambda>t. isActive t \<and> within_distance geo_dist q r t) ts) \<le> 20"
  shows "set (near_query geo_dist q r ts) =
         {t \<in> set ts. isActive t \<and> within_distance geo_dist q r t}"
  using assms unfolding near_query_def by simp


lemma nearby_items:
  assumes "nearby geo_dist req s = NearbyOk items"
  shows "items = js_sort (map (\<lambda>t. \<lparr>item_treasureId = treasureId t,
                       item_rewardPoints = rewardPoints t,
                       item_requiredRank = requiredRank t,
                       item_distance = math_round (distance_to (n_lat req) (n_lng req)
                                                     (latitude t) (longitude t)),
                       item_canHunt = (getRankNumber (case profiles s (n_userId req) of None \<Rightarrow> Beginner
                                     | Some p \<Rightarrow> rank p) \<ge> requiredRank t)\<rparr>)
             (filter (\<lambda>t. find_discovery (treasureId t) (discoveries s) = None)
                (near_query geo_dist (n_lng req, n_lat req)
                   (real_of_int (case n_radius req of None \<Rightarrow> 5000 | Some r \<Rightarrow> r)) (treasures s))))"
  using assms unfolding nearby_def Let_def
  by (auto simp: undiscovered_iff split: if_splits)

text \<open>
  Stored treasure documents have no \<open>latitude\<close> or \<open>longitude\<close> property: the
  schema keeps the position in \<open>location.coordinates\<close>, the first variant never
  writes a treasure, and the second variant stores a synthesized treasure through the
  schema.
\<close>

lemma v1_keeps_treasures: "treasures (snd (discover_v1 chain clk req s)) = treasures s"
  unfolding discover_v1_def Let_def
  by (auto split: option.splits sum.splits)

lemma save_generated_treasure_schema:
  "list_all (\<lambda>t. latitude t = None \<and> longitude t = None) ts \<Longrightarrow>
   list_all (\<lambda>t. latitude t = None \<and> longitude t = None) (save_generated_treasure nk t ts)"
  by (simp add: save_generated_treasure_def Let_def)

lemma v2_keeps_schema:
  "list_all (\<lambda>t. latitude t = None \<and> longitude t = None) (treasures s) \<Longrightarrow>
   list_all (\<lambda>t. latitude t = None \<and> longitude t = None)
     (treasures (snd (discover_v2 pf nk chain clk req s)))"
  unfolding discover_v2_def Let_def
  by (auto simp: save_generated_treasure_schema split: option.splits sum.splits prod.splits)

lemma sorted_map_constant:
  "\<forall>x\<in>set xs. f x = (c::real) \<Longrightarrow> sorted (map f xs)"
  by (induction xs) auto

lemma insort_key_after:
  "\<forall>x\<in>set xs. f x < f y \<Longrightarrow> insort_key f y xs = xs @ [y]"
  by (induction xs) auto

text \<open>
  Claim C8, as the code has it. The list of a nearby query has at most 20 entries, each
  for an active treasure of the store without a discovery; its entries are those of the
  \<open>$near\<close> query (the 20 nearest active treasures within the radius) that have no
  discovery. On a store whose documents follow the schema every reported distance is
  \<open>NaN\<close>, the final sort leaves the list as it is, and the list is in the order
  of the \<open>$near\<close> query, which is ascending in the distance from the query point.
  The limit is applied before discovered treasures are removed: every active
  undiscovered treasure within the radius appears when at most 20 active treasures lie
  within the radius.
\<close>

theorem nearby_result_properties:
  assumes "nearby geo_dist req s = NearbyOk items"
  shows "length items \<le> 20 \<and>
    (\<forall>i\<in>set items. \<exists>t\<in>set (treasures s).
        treasureId t = item_treasureId i \<and> isActive t \<and>
        find_discovery (treasureId t) (discoveries s) = None) \<and>
    item_treasureId ` set items =
      treasureId ` set (filter (\<lambda>t. find_discovery (treasureId t) (discoveries s) = None)
           (near_query geo_dist (n_lng req, n_lat req)
              (real_of_int (case n_radius req of None \<Rightarrow> 5000 | Some r \<Rightarrow> r)) (treasures s))) \<and>
    ((\<forall>t\<in>set (treasures s). latitude t = None \<and> longitude t = None) \<longrightarrow>
       map item_treasureId items =
         map treasureId (filter (\<lambda>t. find_discovery (treasureId t) (discoveries s) = None)
           (near_query geo_dist (n_lng req, n_lat req)
              (real_of_int (case n_radius req of None \<Rightarrow> 5000 | Some r \<Rightarrow> r)) (treasures s)))) \<and>
    sorted (map (geo_key geo_dist (n_lng req, n_lat req))
           (filter (\<lambda>t. find_discovery (treasureId t) (discoveries s) = None)
             (near_query geo_dist (n_lng req, n_lat req)
                (real_of_int (case n_radius req of None \<Rightarrow> 5000 | Some r \<Rightarrow> r)) (treasures s)))) \<and>
    (length (filter (\<lambda>t. isActive t \<and>
                within_distance geo_dist (n_lng req, n_lat req)
                  (real_of_int (case n_radius req of None \<Rightarrow> 5000 | Some r \<Rightarrow> r)) t) (treasures s)) \<le> 20 \<longrightarrow>
     (\<forall>t\<in>set (treasures s).
        isActive t \<and>
        within_distance geo_dist (n_lng req, n_lat req)
          (real_of_int (case n_radius req of None \<Rightarrow> 5000 | Some r \<Rightarrow> r)) t \<and>
        find_discovery (treasureId t) (discoveries s) = None \<longrightarrow>
        treasureId t \<in> item_treasureId ` set items))"
proof -
  let ?q = "(n_lng req, n_lat req)"
  let ?r = "real_of_int (case n_radius req of None \<Rightarrow> 5000 | Some r \<Rightarrow> r)"
  let ?found = "near_query geo_dist ?q ?r (treasures s)"
  let ?avail = "filter (\<lambda>t. find_discovery (treasureId t) (discoveries s) = None) ?found"
  let ?mk = "\<lambda>t. \<lparr>item_treasureId = treasureId t,
                       item_rewardPoints = rewardPoints t,
                       item_requiredRank = requiredRank t,
                       item_distance = math_round (distance_to (n_lat req) (n_lng req)
                                                     (latitude t) (longitude t)),
                       item_canHunt = (getRankNumber (case profiles s (n_userId req) of None \<Rightarrow> Beginner
                                     | Some p \<Rightarrow> rank p) \<ge> requiredRank t)\<rparr>"
  have items: "items = js_sort (map ?mk ?avail)"
    using nearby_items [OF assms] .
  have len: "length items \<le> 20"
  proof -
    have "length items = length ?avail" by (simp add: items)
    also have "\<dots> \<le> length ?found" by simp
    also have "\<dots> \<le> 20" by (rule length_near_query)
    finally show ?thesis .
  qed
  have sub: "\<exists>t\<in>set (treasures s).
        treasureId t = item_treasureId i \<and> isActive t \<and>
        find_discovery (treasureId t) (discoveries s) = None" if "i \<in> set items" for i
  proof -
    from that obtain t where t: "t \<in> set ?avail" "i = ?mk t"
      by (auto simp: items)
    then have "t \<in> set ?found" "find_discovery (treasureId t) (discoveries s) = None" by auto
    with set_near_query_subset [of t geo_dist ?q ?r "treasures s"] t(2)
    show ?thesis by auto
  qed
  have ids: "item_treasureId ` set items = treasureId ` set ?avail"
  proof -
    have "set items = ?mk ` set ?avail" by (simp add: items)
    then have "item_treasureId ` set items = (item_treasureId \<circ> ?mk) ` set ?avail"
      by (simp only: image_comp)
    then show ?thesis by (simp add: comp_def)
  qed
  have nan: "map item_treasureId items = map treasureId ?avail"
    if schema: "\<forall>t\<in>set (treasures s). latitude t = None \<and> longitude t = None"
  proof -
    have "item_distance (?mk t) = None" if "t \<in> set ?avail" for t
    proof -
      from that have "t \<in> set ?found" by simp
      then have "t \<in> set (treasures s)"
        using set_near_query_subset [of t geo_dist ?q ?r "treasures s"] by simp
      with schema have "latitude t = None" by simp
      then show ?thesis by (simp add: distance_to_def math_round_def)
    qed
    then have "\<forall>x\<in>set (map ?mk ?avail). item_distance x = None" by auto
    then have "js_sort (map ?mk ?avail) = map ?mk ?avail" by (rule js_sort_all_NaN)
    then show ?thesis by (simp add: items comp_def)
  qed
  have srt: "sorted (map (geo_key geo_dist ?q) ?avail)"
    using sorted_near_query [of geo_dist ?q ?r "treasures s"] by (rule sorted_filter)
  have all: "treasureId t \<in> item_treasureId ` set items"
    if "length (filter (\<lambda>t. isActive t \<and> within_distance geo_dist ?q ?r t) (treasures s)) \<le> 20"
      and "t \<in> set (treasures s)" "isActive t" "within_distance geo_dist ?q ?r t"
      "find_discovery (treasureId t) (discoveries s) = None" for t
  proof -
    from near_query_all [OF that(1)] that(2-4) have "t \<in> set ?found" by simp
    with that(5) have "t \<in> set ?avail" by simp
    then have "treasureId t \<in> treasureId ` set ?avail" by (rule imageI)
    then show ?thesis by (simp only: ids)
  qed
  from len sub ids nan srt all show ?thesis by blast
qed

lemma taken_facts:
  "t \<in> set (map taken_treasure [0..<18]) \<Longrightarrow>
   isActive t \<and> coordinates t = Some (105.8600, 21.0400) \<and>
   treasureId t \<in> d_treasureId ` set (map taken_discovery [0..<18])"
  by (auto simp: taken_treasure_def taken_discovery_def image_iff)

lemma near_query_busy:
  "near_query flat_dist (105.8520, 21.0351) 5000 (treasures busy_store)
   = old_quarter None None # dong_xuan None None # map taken_treasure [0..<18]"
proof -
  let ?q = "(105.8520, 21.0351) :: real \<times> real"
  let ?T = "map taken_treasure [0..<18]"
  let ?lb = "long_bien"
  let ?dx = "dong_xuan None None"
  let ?oq = "old_quarter None None"
  let ?k = "geo_key flat_dist ?q"
  let ?P = "\<lambda>t. isActive t \<and> within_distance flat_dist ?q 5000 t"
  have kT: "?k t = 14319 / 10" if "t \<in> set ?T" for t
    using taken_facts [OF that] by (simp add: geo_key_def flat_dist_def)
  have koq: "?k ?oq = 0"
    by (simp add: geo_key_def flat_dist_def old_quarter_def)
  have kdx: "?k ?dx = 5439 / 10"
    by (simp add: geo_key_def flat_dist_def dong_xuan_def)
  have klb: "?k ?lb = 26973 / 10"
    by (simp add: geo_key_def flat_dist_def long_bien_def)
  have PT: "?P t" if "t \<in> set ?T" for t
    using taken_facts [OF that] by (simp add: within_distance_def flat_dist_def)
  have Poq: "?P ?oq"
    by (simp add: within_distance_def flat_dist_def old_quarter_def)
  have Pdx: "?P ?dx"
    by (simp add: within_distance_def flat_dist_def dong_xuan_def)
  have Plb: "?P ?lb"
    by (simp add: within_distance_def flat_dist_def long_bien_def)
  have f: "filter ?P (?lb # ?dx # ?oq # ?T) = ?lb # ?dx # ?oq # ?T"
    using PT Poq Pdx Plb by (simp add: filter_id_conv)
  have "sorted (map ?k ?T)"
    using kT by (intro sorted_map_constant) blast
  then have sT: "sort_key ?k ?T = ?T" by (rule sort_key_id_if_sorted)
  have bT: "?k ?oq \<le> ?k t \<and> ?k ?dx \<le> ?k t \<and> ?k t < ?k ?lb" if "t \<in> set ?T" for t
    using kT [OF that] koq kdx klb by linarith
  have i1: "insort_key ?k ?oq ?T = ?oq # ?T"
    using bT by (intro insort_is_Cons) blast
  have i2: "insort_key ?k ?dx ?T = ?dx # ?T"
    using bT by (intro insort_is_Cons) blast
  have i3: "insort_key ?k ?lb ?T = ?T @ [?lb]"
    using bT by (intro insort_key_after) blast
  have o1: "\<not> ?k ?dx \<le> ?k ?oq" "\<not> ?k ?lb \<le> ?k ?oq" "\<not> ?k ?lb \<le> ?k ?dx"
    using koq kdx klb by linarith+
  have "sort_key ?k (?lb # ?dx # ?oq # ?T)
        = insort_key ?k ?lb (insort_key ?k ?dx (insort_key ?k ?oq (sort_key ?k ?T)))"
    by simp
  also have "\<dots> = insort_key ?k ?lb (insort_key ?k ?dx (?oq # ?T))"
    by (simp only: sT i1)
  also have "\<dots> = insort_key ?k ?lb (?oq # ?dx # ?T)"
    by (simp only: insort_key.simps o1 if_False i2)
  also have "\<dots> = ?oq # ?dx # (?T @ [?lb])"
    by (simp only: insort_key.simps o1 if_False i3)
  finally have s: "sort_key ?k (?lb # ?dx # ?oq # ?T) = ?oq # ?dx # (?T @ [?lb])" .
  have "near_query flat_dist ?q 5000 (treasures busy_store)
        = take 20 (sort_key ?k (filter ?P (?lb # ?dx # ?oq # ?T)))"
    by (simp add: near_query_def busy_store_def)
  also have "\<dots> = take 20 (?oq # ?dx # (?T @ [?lb]))" by (simp only: f s)
  also have "\<dots> = ?oq # ?dx # ?T" by simp
  finally show ?thesis .
qed

lemma available_busy:
  "filter (\<lambda>t. find_discovery (treasureId t) (discoveries busy_store) = None)
     (old_quarter None None # dong_xuan None None # map taken_treasure [0..<18])
   = [old_quarter None None, dong_xuan None None]"
proof -
  have "filter (\<lambda>t. treasureId t \<notin> d_treasureId ` set (map taken_discovery [0..<18]))
          (map taken_treasure [0..<18]) = []"
    using taken_facts by (simp only: filter_empty_conv) blast
  then have "filter (\<lambda>t. find_discovery (treasureId t) (map taken_discovery [0..<18]) = None)
          (map taken_treasure [0..<18]) = []"
    by (simp only: undiscovered_iff)
  moreover have "find_discovery (treasureId (old_quarter None None))
                   (map taken_discovery [0..<18]) = None"
    by (simp add: find_discovery_def find_None_iff old_quarter_def taken_discovery_def
          del: upt_rec_numeral)
  moreover have "find_discovery (treasureId (dong_xuan None None))
                   (map taken_discovery [0..<18]) = None"
    by (simp add: find_discovery_def find_None_iff dong_xuan_def taken_discovery_def
          del: upt_rec_numeral)
  ultimately show ?thesis
    by (simp add: busy_store_def del: upt_rec_numeral map_map)
qed

lemma nearby_eq:
  assumes "nearby_valid req"
  shows "nearby geo_dist req s =
     NearbyOk (js_sort (map (\<lambda>t. \<lparr>item_treasureId = treasureId t,
                       item_rewardPoints = rewardPoints t,
                       item_requiredRank = requiredRank t,
                       item_distance = math_round (distance_to (n_lat req) (n_lng req)
                                                     (latitude t) (longitude t)),
                       item_canHunt = (getRankNumber (case profiles s (n_userId req) of None \<Rightarrow> Beginner
                                     | Some p \<Rightarrow> rank p) \<ge> requiredRank t)\<rparr>)
             (filter (\<lambda>t. find_discovery (treasureId t) (discoveries s) = None)
                (near_query geo_dist (n_lng req, n_lat req)
                   (real_of_int (case n_radius req of None \<Rightarrow> 5000 | Some r \<Rightarrow> r)) (treasures s)))))"
  using assms unfolding nearby_def Let_def
  by (simp add: undiscovered_iff)

lemma near_query_busy_request:
  "near_query flat_dist (n_lng example_nearby, n_lat example_nearby)
     (real_of_int (case n_radius example_nearby of None \<Rightarrow> 5000 | Some r \<Rightarrow> r))
     (treasures busy_store)
   = old_quarter None None # dong_xuan None None # map taken_treasure [0..<18]"
  using near_query_busy by (simp add: example_nearby_def)

lemma nearby_busy:
  "nearby flat_dist example_nearby busy_store
   = NearbyOk [old_quarter_item None, dong_xuan_item None]"
proof -
  have v: "nearby_valid example_nearby"
    by (simp add: nearby_valid_def example_nearby_def)
  note e = nearby_eq [OF v, of flat_dist busy_store,
      unfolded near_query_busy_request available_busy]
  have p: "profiles busy_store (n_userId example_nearby) = Some explorer_profile"
    by (simp add: busy_store_def example_nearby_def)
  show ?thesis
    unfolding e p
    by (simp add: js_sort_def distance_le_def distance_to_def math_round_def old_quarter_def
          dong_xuan_def old_quarter_item_def dong_xuan_item_def explorer_profile_def)
qed

lemma busy_schema:
  "list_all (\<lambda>t. latitude t = None \<and> longitude t = None) (treasures busy_store)"
  by (simp add: busy_store_def long_bien_def dong_xuan_def old_quarter_def taken_treasure_def
        list_all_iff del: upt_rec_numeral)

theorem nearby_result_properties_witness:
  "nearby flat_dist example_nearby busy_store
     = NearbyOk [old_quarter_item None, dong_xuan_item None] \<and>
   list_all (\<lambda>t. latitude t = None \<and> longitude t = None) (treasures busy_store) \<and>
   length (treasures busy_store) = 21 \<and>
   list_all (\<lambda>t. isActive t \<and> within_distance flat_dist (105.8520, 21.0351) 5000 t)
     (treasures busy_store) \<and>
   take 3 (treasures busy_store) = [long_bien, dong_xuan None None, old_quarter None None] \<and>
   near_query flat_dist (n_lng example_nearby, n_lat example_nearby) 5000 (treasures busy_store)
     = old_quarter None None # dong_xuan None None # map taken_treasure [0..<18] \<and>
   filter (\<lambda>t. find_discovery (treasureId t) (discoveries busy_store) = None)
       (near_query flat_dist (n_lng example_nearby, n_lat example_nearby) 5000
          (treasures busy_store))
     = [old_quarter None None, dong_xuan None None] \<and>
   find_discovery (treasureId long_bien) (discoveries busy_store) = None \<and>
   length [old_quarter_item None, dong_xuan_item None] \<le> 20 \<and>
   map item_treasureId [old_quarter_item None, dong_xuan_item None]
     = map treasureId [old_quarter None None, dong_xuan None None] \<and>
   map (geo_key flat_dist (n_lng example_nearby, n_lat example_nearby))
       [old_quarter None None, dong_xuan None None] = [0, 543.9] \<and>
   sorted (map (geo_key flat_dist (n_lng example_nearby, n_lat example_nearby))
       [old_quarter None None, dong_xuan None None])"
proof -
  have q: "near_query flat_dist (n_lng example_nearby, n_lat example_nearby) 5000
             (treasures busy_store)
           = old_quarter None None # dong_xuan None None # map taken_treasure [0..<18]"
    using near_query_busy by (simp add: example_nearby_def)
  have av: "filter (\<lambda>t. find_discovery (treasureId t) (discoveries busy_store) = None)
       (near_query flat_dist (n_lng example_nearby, n_lat example_nearby) 5000
          (treasures busy_store))
     = [old_quarter None None, dong_xuan None None]"
    using available_busy by (simp only: q)
  have schema: "\<forall>t\<in>set (treasures busy_store). latitude t = None \<and> longitude t = None"
    using busy_schema by (simp only: list_all_iff)
  note t = nearby_result_properties [OF nearby_busy,
      unfolded near_query_busy_request available_busy]
  from t have len: "length [old_quarter_item None, dong_xuan_item None] \<le> 20" by blast
  from t schema have ids: "map item_treasureId [old_quarter_item None, dong_xuan_item None]
     = map treasureId [old_quarter None None, dong_xuan None None]" by blast
  from t have srt: "sorted (map (geo_key flat_dist (n_lng example_nearby, n_lat example_nearby))
       [old_quarter None None, dong_xuan None None])" by blast
  have keys: "map (geo_key flat_dist (n_lng example_nearby, n_lat example_nearby))
       [old_quarter None None, dong_xuan None None] = [0, 543.9]"
    by (simp add: geo_key_def flat_dist_def example_nearby_def old_quarter_def dong_xuan_def)
  have n: "length (treasures busy_store) = 21"
    by (simp add: busy_store_def)
  have w: "list_all (\<lambda>t. isActive t \<and> within_distance flat_dist (105.8520, 21.0351) 5000 t)
     (treasures busy_store)"
    by (simp add: busy_store_def long_bien_def dong_xuan_def old_quarter_def taken_treasure_def
          within_distance_def flat_dist_def list_all_iff del: upt_rec_numeral)
  have h: "take 3 (treasures busy_store) = [long_bien, dong_xuan None None, old_quarter None None]"
    by (simp add: busy_store_def)
  have lb: "find_discovery (treasureId long_bien) (discoveries busy_store) = None"
    by (simp add: find_discovery_def find_None_iff long_bien_def taken_discovery_def busy_store_def
          del: upt_rec_numeral)
  from nearby_busy busy_schema n w h q av lb len ids keys srt
  show ?thesis by blast
qed

lemma crowd_facts:
  "t \<in> set (map (crowd_treasure la lo) [0..<20]) \<Longrightarrow>
   isActive t \<and> coordinates t = Some (105.8520, 21.0351) \<and>
   treasureId t \<in> d_treasureId ` set (map crowd_discovery [0..<20])"
  by (auto simp: crowd_treasure_def crowd_discovery_def image_iff)

lemma near_query_crowd:
  "near_query flat_dist (105.8520, 21.0351) 5000
     (dong_xuan la' lo' # map (crowd_treasure la lo) [0..<20])
   = map (crowd_treasure la lo) [0..<20]"
proof -
  let ?q = "(105.8520, 21.0351) :: real \<times> real"
  let ?C = "map (crowd_treasure la lo) [0..<20]"
  let ?dx = "dong_xuan la' lo'"
  let ?k = "geo_key flat_dist ?q"
  let ?P = "\<lambda>t. isActive t \<and> within_distance flat_dist ?q 5000 t"
  have kC: "?k t = 0" if "t \<in> set ?C" for t
    using crowd_facts [OF that] by (simp add: geo_key_def flat_dist_def)
  have kdx: "?k ?dx = 5439 / 10"
    by (simp add: geo_key_def flat_dist_def dong_xuan_def)
  have PC: "?P t" if "t \<in> set ?C" for t
    using crowd_facts [OF that] by (simp add: within_distance_def flat_dist_def)
  have Pdx: "?P ?dx"
    by (simp add: within_distance_def flat_dist_def dong_xuan_def)
  have f: "filter ?P (?dx # ?C) = ?dx # ?C"
    using PC Pdx by (simp add: filter_id_conv)
  have "sorted (map ?k ?C)"
    using kC by (intro sorted_map_constant) blast
  then have sC: "sort_key ?k ?C = ?C" by (rule sort_key_id_if_sorted)
  have "sort_key ?k (?dx # ?C) = insort_key ?k ?dx (sort_key ?k ?C)"
    by simp
  also have "\<dots> = ?C @ [?dx]"
    unfolding sC using kC kdx by (intro insort_key_after) simp
  finally have s: "sort_key ?k (?dx # ?C) = ?C @ [?dx]" .
  have "near_query flat_dist ?q 5000 (?dx # ?C) = take 20 (sort_key ?k (filter ?P (?dx # ?C)))"
    by (simp add: near_query_def)
  also have "\<dots> = take 20 (?C @ [?dx])" by (simp only: f s)
  also have "\<dots> = ?C" by simp
  finally show ?thesis .
qed

lemma nearby_crowd:
  "nearby flat_dist example_nearby (crowd_store la lo la' lo') = NearbyOk []"
proof -
  have "filter (\<lambda>t. treasureId t \<notin> d_treasureId ` set (map crowd_discovery [0..<20]))
          (map (crowd_treasure la lo) [0..<20]) = []"
    using crowd_facts [of _ la lo] by (simp only: filter_empty_conv) blast
  then show ?thesis
    using near_query_crowd [of la' lo' la lo]
    by (simp add: nearby_def nearby_valid_def example_nearby_def crowd_store_def Let_def
          js_sort_def del: upt_rec_numeral map_map)
qed

text \<open>
  Claim C8 as stated fails on its last part. Twenty discovered treasures lie at the
  query point and \<open>dong_xuan\<close>, active and undiscovered, lies within the radius: the
  limited query returns the twenty, the filter removes them all, and the answer is the
  empty list, which is below the cap and lacks \<open>dong_xuan\<close>.
\<close>

theorem limit_before_filter_hides_treasure:
  "nearby_valid example_nearby \<and>
   nearby flat_dist example_nearby (crowd_store None None None None) = NearbyOk [] \<and>
   nearby flat_dist example_nearby
     (crowd_store (Some 21.0351) (Some 105.8520) (Some 21.0380) (Some 105.8500)) = NearbyOk [] \<and>
   dong_xuan None None \<in> set (treasures (crowd_store None None None None)) \<and>
   isActive (dong_xuan None None) \<and>
   find_discovery (treasureId (dong_xuan None None))
     (discoveries (crowd_store None None None None)) = None \<and>
   coordinates (dong_xuan None None) = Some (105.8500, 21.0380) \<and>
   flat_dist (n_lng example_nearby, n_lat example_nearby) (105.8500, 21.0380) \<le> 5000 \<and>
   length (treasures (crowd_store None None None None)) = 21 \<and>
   length (discoveries (crowd_store None None None None)) = 20"
  using nearby_crowd [of None None None None]
    nearby_crowd [of "Some 21.0351" "Some 105.8520" "Some 21.0380" "Some 105.8500"]
  by (simp add: nearby_valid_def example_nearby_def crowd_store_def dong_xuan_def flat_dist_def
        find_discovery_def find_None_iff crowd_discovery_def del: upt_rec_numeral)

end
